theory Spec2Isabelle
  imports Complex_Main
begin

section \<open>Strings and addresses\<close>

text \<open>
  Wallet addresses are hexadecimal strings; the code compares them after
  \<^verbatim>\<open>toLowerCase()\<close>.  On the ASCII range that an address uses, lower-casing
  maps \<open>A..Z\<close> to \<open>a..z\<close> and leaves every other character alone.
\<close>

definition upper_lower_table :: "(char \<times> char) list" where
  "upper_lower_table = zip ''ABCDEFGHIJKLMNOPQRSTUVWXYZ'' ''abcdefghijklmnopqrstuvwxyz''"

definition toLowerCase_char :: "char \<Rightarrow> char" where
  "toLowerCase_char c = (case map_of upper_lower_table c of Some d \<Rightarrow> d | None \<Rightarrow> c)"

definition toLowerCase :: "string \<Rightarrow> string" where
  "toLowerCase s = map toLowerCase_char s"

text \<open>
  JavaScript's \<^verbatim>\<open>a || b\<close> yields \<open>b\<close> when \<open>a\<close> is falsy: \<^verbatim>\<open>undefined\<close>
  (here \<open>None\<close>), the number 0 or the empty string.
\<close>

definition orZero :: "int option \<Rightarrow> int" where
  "orZero x = (case x of None \<Rightarrow> 0 | Some v \<Rightarrow> v)"

definition orElse :: "int option \<Rightarrow> int option \<Rightarrow> int option" where
  "orElse a b = (case a of None \<Rightarrow> b | Some v \<Rightarrow> if v = 0 then b else Some v)"

definition orElseStr :: "string option \<Rightarrow> string option \<Rightarrow> string option" where
  "orElseStr a b = (case a of None \<Rightarrow> b | Some v \<Rightarrow> if v = [] then b else Some v)"

definition truthy :: "bool option \<Rightarrow> bool" where
  "truthy b = (case b of None \<Rightarrow> False | Some v \<Rightarrow> v)"

section \<open>Leaderboard ranker (storage module, \<^verbatim>\<open>updateLeaderboardEntry\<close>)\<close>

text \<open>
  \<^verbatim>\<open>interface LeaderboardEntry\<close>: optional fields are options.  The numeric
  fields are JavaScript numbers holding counters; they are integers here.
\<close>

record LeaderboardEntry =
  address :: string
  username :: "string option"
  triggerPulls :: int
  deaths :: int
  maxStreak :: int
  rank :: "nat option"
  isPaid :: "bool option"
  lastPlayed :: "nat option"

text \<open>
  The comparator handed to \<^verbatim>\<open>board.sort\<close>: a negative result places \<open>a\<close>
  before \<open>b\<close>.
\<close>

definition compareEntries :: "LeaderboardEntry \<Rightarrow> LeaderboardEntry \<Rightarrow> int" where
  "compareEntries a b =
     (if maxStreak b \<noteq> maxStreak a then maxStreak b - maxStreak a
      else if triggerPulls b \<noteq> triggerPulls a then triggerPulls b - triggerPulls a
      else deaths a - deaths b)"

text \<open>
  \<^verbatim>\<open>Array.prototype.sort\<close> is a stable sort.  For a comparator that is a total
  preorder every stable sort returns the same array, so stable insertion models it:
  an element is put in front of the first element it does not compare greater than,
  and the elements are inserted from the last to the first.
\<close>

fun insertBy :: "('a \<Rightarrow> 'a \<Rightarrow> int) \<Rightarrow> 'a \<Rightarrow> 'a list \<Rightarrow> 'a list" where
  "insertBy cmp x [] = [x]"
| "insertBy cmp x (y # ys) = (if cmp x y \<le> 0 then x # y # ys else y # insertBy cmp x ys)"

fun sortBy :: "('a \<Rightarrow> 'a \<Rightarrow> int) \<Rightarrow> 'a list \<Rightarrow> 'a list" where
  "sortBy cmp [] = []"
| "sortBy cmp (x # xs) = insertBy cmp x (sortBy cmp xs)"

text \<open>
  \<^verbatim>\<open>findIndex\<close> followed by \<^verbatim>\<open>splice(index, 1)\<close>: the first element that
  satisfies the predicate is removed, if there is one.
\<close>

fun removeFirst :: "('a \<Rightarrow> bool) \<Rightarrow> 'a list \<Rightarrow> 'a list" where
  "removeFirst p [] = []"
| "removeFirst p (x # xs) = (if p x then xs else x # removeFirst p xs)"

definition sameAddress :: "LeaderboardEntry \<Rightarrow> LeaderboardEntry \<Rightarrow> bool" where
  "sameAddress entry e \<longleftrightarrow> toLowerCase (address e) = toLowerCase (address entry)"

text \<open>\<^verbatim>\<open>board.forEach((entry, idx) => { entry.rank = idx + 1 })\<close>, from index \<open>i\<close> on.\<close>

fun assignRanks :: "nat \<Rightarrow> LeaderboardEntry list \<Rightarrow> LeaderboardEntry list" where
  "assignRanks i [] = []"
| "assignRanks i (e # es) = e\<lparr>rank := Some (i + 1)\<rparr> # assignRanks (i + 1) es"

text \<open>
  The body of \<^verbatim>\<open>updateLeaderboardEntry\<close> on one partition.  The file-backed
  storage module stops after the ranks; the Edge Config one then keeps the top 50
  (\<^verbatim>\<open>if (board.length > 50) board.splice(50)\<close>).  The cap is the parameter
  \<open>cap\<close>: \<open>None\<close> for the first module, \<open>Some 50\<close> for the second.
\<close>

definition upsert :: "nat option \<Rightarrow> LeaderboardEntry list \<Rightarrow> LeaderboardEntry \<Rightarrow> LeaderboardEntry list" where
  "upsert cap board entry =
     (let removed = removeFirst (sameAddress entry) board;
          pushed = removed @ [entry];
          ordered = sortBy compareEntries pushed;
          ranked = assignRanks 0 ordered
      in case cap of
           None \<Rightarrow> ranked
         | Some n \<Rightarrow> if length ranked > n then take n ranked else ranked)"

text \<open>A sequence of upserts into one partition, in arrival order.\<close>

definition upserts :: "nat option \<Rightarrow> LeaderboardEntry list \<Rightarrow> LeaderboardEntry list \<Rightarrow> LeaderboardEntry list" where
  "upserts cap board entries = foldl (upsert cap) board entries"

text \<open>
  The order the ranker is meant to keep, in the words of its comment: higher
  \<open>maxStreak\<close> first, then higher \<open>triggerPulls\<close>, then lower \<open>deaths\<close>.
\<close>

definition rankedBefore :: "LeaderboardEntry \<Rightarrow> LeaderboardEntry \<Rightarrow> bool" where
  "rankedBefore a b \<longleftrightarrow>
     maxStreak a > maxStreak b
     \<or> (maxStreak a = maxStreak b
        \<and> (triggerPulls a > triggerPulls b
           \<or> (triggerPulls a = triggerPulls b \<and> deaths a \<le> deaths b)))"

definition uniqueAddresses :: "LeaderboardEntry list \<Rightarrow> bool" where
  "uniqueAddresses board \<longleftrightarrow> distinct (map (\<lambda>e. toLowerCase (address e)) board)"


definition wellRanked :: "LeaderboardEntry list \<Rightarrow> bool" where
  "wellRanked board \<longleftrightarrow>
     sorted_wrt rankedBefore board
     \<and> map rank board = map Some [1 ..< length board + 1]
     \<and> uniqueAddresses board"

section \<open>The persisted document\<close>

text \<open>
  \<^verbatim>\<open>interface StorageData\<close> and its parts.  Amounts are JavaScript numbers holding
  decimal sums of money; they are exact rationals here.  \<^verbatim>\<open>playerStats\<close> is a
  \<^verbatim>\<open>Record<string, any>\<close>: every field a handler reads with a fallback may be
  missing, so the fields of the blob are options.  Field names that several
  interfaces share carry a suffix here.
\<close>

record PrizePool =
  totalAmount :: rat
  participants :: int
  lastUpdated :: nat

record PlayerStats =
  address_st :: string
  triggerPulls_st :: "int option"
  deaths_st :: "int option"
  maxStreak_st :: "int option"
  currentStreak_st :: "int option"
  username_st :: "string option"
  isPaid_st :: "bool option"
  lastPlayed_st :: "nat option"
  lastUpdated_st :: "nat option"

datatype TransactionType = deposit_tx | withdrawal_tx | prize_tx | entry_fee_tx

record LedgerTransaction =
  type_tx :: TransactionType
  amount_tx :: rat
  timestamp_tx :: nat
  transactionHash_tx :: "string option"

record PlayerBalance =
  balance :: rat
  pendingPrizes :: rat
  totalDeposited :: rat
  totalWithdrawn :: rat
  lastUpdated_b :: nat
  transactions :: "LedgerTransaction list"

record Leaderboard =
  free :: "LeaderboardEntry list"
  paid :: "LeaderboardEntry list"

record StorageData =
  leaderboard :: Leaderboard
  prizePool :: PrizePool
  playerStats :: "string \<rightharpoonup> PlayerStats"
  playerBalances :: "string \<rightharpoonup> PlayerBalance"

text \<open>The document every initialiser writes and every fresh instance caches.\<close>

definition initialData :: "nat \<Rightarrow> StorageData" where
  "initialData now =
     \<lparr>leaderboard = \<lparr>free = [], paid = []\<rparr>,
      prizePool = \<lparr>totalAmount = 0, participants = 0, lastUpdated = now\<rparr>,
      playerStats = Map.empty,
      playerBalances = Map.empty\<rparr>"

section \<open>Storage module: functions on the document\<close>

text \<open>
  Each write function of the storage module fetches the document, changes it and
  saves it.  With no other writer in between, the document it fetches is the one
  saved last, so in this section a write function is a function on the document.
  The store itself (fetch, save, the guard in \<^verbatim>\<open>saveData\<close>, two writers at
  once) is the subject of the section on the store engine.
\<close>

datatype Mode = free_mode | paid_mode

definition updateLeaderboardEntry ::
  "nat option \<Rightarrow> Mode \<Rightarrow> LeaderboardEntry \<Rightarrow> StorageData \<Rightarrow> StorageData" where
  "updateLeaderboardEntry cap mode entry data =
     (case mode of
        free_mode \<Rightarrow>
          data\<lparr>leaderboard := (leaderboard data)\<lparr>free := upsert cap (free (leaderboard data)) entry\<rparr>\<rparr>
      | paid_mode \<Rightarrow>
          data\<lparr>leaderboard := (leaderboard data)\<lparr>paid := upsert cap (paid (leaderboard data)) entry\<rparr>\<rparr>)"

definition getPlayerStats :: "StorageData \<Rightarrow> string \<Rightarrow> PlayerStats option" where
  "getPlayerStats data addr = playerStats data addr"

text \<open>
  \<^verbatim>\<open>{...data.playerStats[address], ...stats, lastUpdated: Date.now()}\<close>: a field of
  \<open>stats\<close> that is present overrides the stored one.
\<close>

definition keep :: "'a option \<Rightarrow> 'a option \<Rightarrow> 'a option" where
  "keep new old = (case new of None \<Rightarrow> old | Some v \<Rightarrow> Some v)"

definition spreadStats :: "PlayerStats option \<Rightarrow> PlayerStats \<Rightarrow> PlayerStats" where
  "spreadStats stored stats =
     (case stored of
        None \<Rightarrow> stats
      | Some old \<Rightarrow>
          \<lparr>address_st = address_st stats,
           triggerPulls_st = keep (triggerPulls_st stats) (triggerPulls_st old),
           deaths_st = keep (deaths_st stats) (deaths_st old),
           maxStreak_st = keep (maxStreak_st stats) (maxStreak_st old),
           currentStreak_st = keep (currentStreak_st stats) (currentStreak_st old),
           username_st = keep (username_st stats) (username_st old),
           isPaid_st = keep (isPaid_st stats) (isPaid_st old),
           lastPlayed_st = keep (lastPlayed_st stats) (lastPlayed_st old),
           lastUpdated_st = keep (lastUpdated_st stats) (lastUpdated_st old)\<rparr>)"

definition updatePlayerStats :: "nat \<Rightarrow> string \<Rightarrow> PlayerStats \<Rightarrow> StorageData \<Rightarrow> StorageData" where
  "updatePlayerStats now addr stats data =
     data\<lparr>playerStats := (playerStats data)
       (addr \<mapsto> (spreadStats (playerStats data addr) stats)\<lparr>lastUpdated_st := Some now\<rparr>)\<rparr>"

text \<open>
  \<^verbatim>\<open>updatePrizePool\<close>.  The route calls the one function in two ways.  With
  absolute values, \<^verbatim>\<open>{totalAmount: ..., participants: ...}\<close>, the storage module
  spreads them over the stored pool
  (\<^verbatim>\<open>{...data.prizePool, ...update, lastUpdated: Date.now()}\<close>).  With increments,
  \<^verbatim>\<open>{incrementAmount: 1, incrementParticipants: 1}\<close>, the storage module after the
  race-condition fix adds them to the freshly loaded pool
  (\<^verbatim>\<open>(data.prizePool.totalAmount || 0) + (update.incrementAmount || 0)\<close>).  So a
  value that is given replaces the stored one; otherwise the increment, or 0, is
  added.
\<close>

record PoolUpdate =
  totalAmount_u :: "rat option"
  participants_u :: "int option"
  incrementAmount :: "rat option"
  incrementParticipants :: "int option"

definition noUpdate :: PoolUpdate where
  "noUpdate = \<lparr>totalAmount_u = None, participants_u = None,
               incrementAmount = None, incrementParticipants = None\<rparr>"

definition updatePrizePool :: "nat \<Rightarrow> PoolUpdate \<Rightarrow> StorageData \<Rightarrow> StorageData" where
  "updatePrizePool now update data =
     data\<lparr>prizePool :=
       \<lparr>totalAmount =
          (case totalAmount_u update of
             Some v \<Rightarrow> v
           | None \<Rightarrow> totalAmount (prizePool data)
                     + (case incrementAmount update of Some i \<Rightarrow> i | None \<Rightarrow> 0)),
        participants =
          (case participants_u update of
             Some v \<Rightarrow> v
           | None \<Rightarrow> participants (prizePool data)
                     + (case incrementParticipants update of Some i \<Rightarrow> i | None \<Rightarrow> 0)),
        lastUpdated = now\<rparr>\<rparr>"


section \<open>Failures\<close>

text \<open>
  The failures a handler answers with, named after its message; the comment gives
  the name the specification uses.  \<open>GuardRejected\<close> and \<open>DuplicateTransaction\<close>
  are names of the specification's taxonomy.
\<close>

datatype Error =
    MissingData
  | MissingAddress
  | MissingAddressOrUsername
  | NothingToDistribute             \<comment> \<open>\<^verbatim>\<open>No participants or empty prize pool\<close>\<close>
  | MissingDistributionIdOrAddress
  | DistributionNotFound
  | MissingTransactionHash
  | TransactionNotFound             \<comment> \<open>the chain client throws: no receipt, no transaction\<close>
  | TransactionReverted             \<comment> \<open>\<^verbatim>\<open>Transaction failed on-chain\<close>\<close>
  | NotAUSDCTransfer                \<comment> \<open>\<^verbatim>\<open>Invalid transaction: not a USDC transfer\<close>\<close>
  | SenderMismatch                  \<comment> \<open>\<^verbatim>\<open>Invalid transaction: sender mismatch\<close>\<close>
  | RecipientMismatch               \<comment> \<open>\<^verbatim>\<open>Invalid transaction: recipient mismatch\<close>\<close>
  | InvalidWithdrawalData
  | InvalidPrizeApprovalData
  | InsufficientBalance
  | InsufficientPending
  | DuplicateTransaction
  | GuardRejected

section \<open>Balance ledger\<close>

text \<open>
  Modelled from the spec: \<^verbatim>\<open>getPlayerBalance\<close> of the storage module is not among
  the sources.  A balance record is created lazily on first activity for an
  address, so an address without a record reads as the record of zeros.
\<close>

definition getPlayerBalance :: "nat \<Rightarrow> StorageData \<Rightarrow> string \<Rightarrow> PlayerBalance" where
  "getPlayerBalance now data addr =
     (case playerBalances data addr of
        Some b \<Rightarrow> b
      | None \<Rightarrow> \<lparr>balance = 0, pendingPrizes = 0, totalDeposited = 0, totalWithdrawn = 0,
                 lastUpdated_b = now, transactions = []\<rparr>)"

text \<open>
  Modelled from the spec: \<^verbatim>\<open>addBalance\<close> of the storage module is not among the
  sources.  It is the specification's \<open>credit(address, amount, kind, externalTxRef?)\<close>:
  \<open>balance += amount\<close>; for a deposit \<open>totalDeposited += amount\<close>; a transaction
  record is appended; it fails with \<open>DuplicateTransaction\<close> if the external
  reference already appears in that address's transaction history.
\<close>

definition addBalance ::
  "nat \<Rightarrow> string \<Rightarrow> rat \<Rightarrow> TransactionType \<Rightarrow> string option \<Rightarrow> StorageData
     \<Rightarrow> Error + StorageData" where
  "addBalance now addr amount kind externalTxRef data =
     (let b = getPlayerBalance now data addr in
      if externalTxRef \<noteq> None \<and> externalTxRef \<in> set (map transactionHash_tx (transactions b))
      then Inl DuplicateTransaction
      else Inr (data\<lparr>playerBalances := (playerBalances data)(addr \<mapsto>
             b\<lparr>balance := balance b + amount,
               totalDeposited := (if kind = deposit_tx then totalDeposited b + amount
                                  else totalDeposited b),
               transactions := transactions b @
                 [\<lparr>type_tx = kind, amount_tx = amount, timestamp_tx = now,
                   transactionHash_tx = externalTxRef\<rparr>]\<rparr>)\<rparr>))"

text \<open>
  Modelled from the spec: \<^verbatim>\<open>deductBalance\<close> of the storage module is not among
  the sources.  It is the specification's \<open>debit(address, amount, kind)\<close>: it fails
  with \<open>InsufficientBalance\<close> if \<open>balance < amount\<close>; otherwise
  \<open>balance -= amount\<close>, and for a withdrawal \<open>totalWithdrawn += amount\<close>.
\<close>

definition deductBalance ::
  "nat \<Rightarrow> string \<Rightarrow> rat \<Rightarrow> TransactionType \<Rightarrow> StorageData \<Rightarrow> Error + StorageData" where
  "deductBalance now addr amount kind data =
     (let b = getPlayerBalance now data addr in
      if balance b < amount then Inl InsufficientBalance
      else Inr (data\<lparr>playerBalances := (playerBalances data)(addr \<mapsto>
             b\<lparr>balance := balance b - amount,
               totalWithdrawn := (if kind = withdrawal_tx then totalWithdrawn b + amount
                                  else totalWithdrawn b)\<rparr>)\<rparr>))"

text \<open>
  Modelled from the spec: \<^verbatim>\<open>addPendingPrize\<close> of the storage module is not among
  the sources.  \<open>pendingPrizes += amount\<close>; the balance is not touched.
\<close>

definition addPendingPrize :: "nat \<Rightarrow> string \<Rightarrow> rat \<Rightarrow> StorageData \<Rightarrow> StorageData" where
  "addPendingPrize now addr amount data =
     (let b = getPlayerBalance now data addr in
      data\<lparr>playerBalances := (playerBalances data)(addr \<mapsto>
        b\<lparr>pendingPrizes := pendingPrizes b + amount\<rparr>)\<rparr>)"

text \<open>
  Modelled from the spec: \<^verbatim>\<open>approvePendingPrize\<close> of the storage module is not
  among the sources.  It fails with \<open>InsufficientPending\<close> if
  \<open>pendingPrizes < amount\<close>; otherwise \<open>pendingPrizes -= amount\<close> and
  \<open>balance += amount\<close>.
\<close>

definition approvePendingPrize ::
  "nat \<Rightarrow> string \<Rightarrow> rat \<Rightarrow> StorageData \<Rightarrow> Error + StorageData" where
  "approvePendingPrize now addr amount data =
     (let b = getPlayerBalance now data addr in
      if pendingPrizes b < amount then Inl InsufficientPending
      else Inr (data\<lparr>playerBalances := (playerBalances data)(addr \<mapsto>
             b\<lparr>pendingPrizes := pendingPrizes b - amount,
               balance := balance b + amount\<rparr>)\<rparr>))"

section \<open>Prize distribution calculator\<close>

record PaidEntry =
  address_p :: string
  maxStreak_p :: int
  totalPulls :: int
  totalDeaths :: int

datatype DistributionStatus = pending | approved

record PrizeDistribution =
  address_d :: string
  amount_d :: rat
  status :: DistributionStatus
  distributionId_d :: nat
  timestamp_d :: nat
  approvedAt_d :: "nat option"

record DistributionLog =
  distributionId :: nat
  timestamp :: nat
  prizePoolAmount :: rat
  participants_log :: nat
  distributions :: "PrizeDistribution list"
  approvedBy :: "string option"
  approvedAt :: "nat option"

text \<open>
  Modelled from the spec: \<^verbatim>\<open>calculatePrizeDistributionForLeaderboard\<close> of
  \<^verbatim>\<open>utils/prizeDistribution\<close> is not among the sources.  The participants are
  ranked again in the leaderboard's order (higher \<open>maxStreak\<close>, then more pulls,
  then fewer deaths); ranks 1, 2 and 3 receive 40\%, 25\% and 15\% of the total; a
  further 10\% is split equally among the participants ranked 4th and below; the
  last 10\% is retained.  Each payout is a pending \<open>PrizeDistribution\<close> record.  A
  distribution identifier is made from the time of the call and is a number here.
\<close>

definition comparePaid :: "PaidEntry \<Rightarrow> PaidEntry \<Rightarrow> int" where
  "comparePaid a b =
     (if maxStreak_p b \<noteq> maxStreak_p a then maxStreak_p b - maxStreak_p a
      else if totalPulls b \<noteq> totalPulls a then totalPulls b - totalPulls a
      else totalDeaths a - totalDeaths b)"

definition prizeShare :: "rat \<Rightarrow> nat \<Rightarrow> nat \<Rightarrow> rat" where
  "prizeShare amount n i =
     (if i = 0 then amount * (40 / 100)
      else if i = 1 then amount * (25 / 100)
      else if i = 2 then amount * (15 / 100)
      else amount * (10 / 100) / of_nat (n - 3))"

definition calculatePrizeDistributionForLeaderboard ::
  "nat \<Rightarrow> rat \<Rightarrow> PaidEntry list \<Rightarrow> PrizeDistribution list" where
  "calculatePrizeDistributionForLeaderboard now amount entries =
     (let ranked = sortBy comparePaid entries in
      map (\<lambda>(i, p).
             \<lparr>address_d = address_p p, amount_d = prizeShare amount (length ranked) i,
              status = pending, distributionId_d = now, timestamp_d = now,
              approvedAt_d = None\<rparr>)
          (enumerate 0 ranked))"


section \<open>Chain client and configuration\<close>

text \<open>
  What the route reads from the chain through its \<^verbatim>\<open>publicClient\<close>.  A lookup
  that throws is \<open>None\<close>.  A receipt log carries the result of
  \<^verbatim>\<open>decodeEventLog\<close> with the \<^verbatim>\<open>Transfer\<close> ABI: \<open>None\<close> when decoding throws.
\<close>

datatype ReceiptStatus = success | reverted

record TransferEvent =
  from_e :: string
  to_e :: string
  value_e :: nat

record ReceiptLog =
  address_l :: string
  decoded :: "TransferEvent option"

record Receipt =
  status_r :: ReceiptStatus
  to_r :: "string option"
  logs_r :: "ReceiptLog list"

record ChainTransaction =
  from_t :: string
  to_t :: "string option"
  value_t :: nat

text \<open>
  The surroundings of one request: the clock (\<^verbatim>\<open>Date.now()\<close>), the leaderboard
  cap of the storage module in use, the chain, and the configured addresses
  (\<^verbatim>\<open>DEPOSIT_WALLET\<close> comes from the environment and may be undefined).
\<close>

record Env =
  dateNow :: nat
  boardCap :: "nat option"
  getTransactionReceipt :: "string \<Rightarrow> Receipt option"
  getTransaction :: "string \<Rightarrow> ChainTransaction option"
  USDC_ADDRESS :: string
  DEPOSIT_WALLET :: "string option"

definition ETH_DEPOSIT_WALLET :: string where
  "ETH_DEPOSIT_WALLET = ''0x0B9188dCE5f4C8a9eAd3BF4d2fAF1A7AFd7027AA''"

definition ETH_PRICE_USD :: rat where
  "ETH_PRICE_USD = 3000"

section \<open>The game route\<close>

text \<open>
  Of what the code prints, the lines kept are the ones that stand for a decision:
  the warning of the deposit handler about the expected amount, and the lines of
  \<^verbatim>\<open>saveData\<close> for a blocked or a failed write.  The error line that goes with
  a failure answer of a handler is not kept: the answer names the failure.
\<close>

datatype ConsoleLine =
    AmountMismatch rat rat            \<comment> \<open>\<^verbatim>\<open>console.warn\<close>: expected, got\<close>
  | BlockedEmptyOverwrite             \<comment> \<open>\<^verbatim>\<open>console.error\<close> of the guard in \<^verbatim>\<open>saveData\<close>\<close>
  | CouldNotSave

record ServerState =
  document :: StorageData
  distributionLogs :: "DistributionLog list"
  console :: "ConsoleLine list"

datatype Response =
    StatsResponse PlayerStats
  | PrizePoolResponse PrizePool
  | DistributionResponse DistributionLog PrizePool
  | LogsResponse "DistributionLog list"
  | DepositResponse PlayerBalance rat string rat string
  | BalanceResponse PlayerBalance

record StatsInput =
  triggerPulls_in :: "int option"
  deaths_in :: "int option"
  maxStreak_in :: "int option"
  isPaid_in :: "bool option"

text \<open>
  The record a handler starts from when the player has no stats yet.  The handlers
  differ in which counters the literal has: \<^verbatim>\<open>updateStats\<close> has \<open>maxStreak\<close>,
  the game events have \<open>maxStreak\<close> and \<open>currentStreak\<close>, \<^verbatim>\<open>joinPrizePool\<close>
  has neither.
\<close>

definition freshStats :: "nat \<Rightarrow> string \<Rightarrow> int option \<Rightarrow> int option \<Rightarrow> PlayerStats" where
  "freshStats now addr streak current =
     \<lparr>address_st = addr, triggerPulls_st = Some 0, deaths_st = Some 0,
      maxStreak_st = streak, currentStreak_st = current, username_st = None,
      isPaid_st = Some False, lastPlayed_st = Some now, lastUpdated_st = None\<rparr>"

definition existingOr :: "StorageData \<Rightarrow> string \<Rightarrow> PlayerStats \<Rightarrow> PlayerStats" where
  "existingOr data addr fresh = (case getPlayerStats data addr of Some s \<Rightarrow> s | None \<Rightarrow> fresh)"

definition modeOf :: "PlayerStats \<Rightarrow> Mode" where
  "modeOf stats = (if truthy (isPaid_st stats) then paid_mode else free_mode)"

text \<open>
  The entry a handler hands to \<^verbatim>\<open>updateLeaderboardEntry\<close>: the counters of the
  updated stats, each \<^verbatim>\<open>|| 0\<close> where it may be missing, and the given user name.
\<close>

definition entryOf :: "PlayerStats \<Rightarrow> string option \<Rightarrow> LeaderboardEntry" where
  "entryOf stats name =
     \<lparr>address = address_st stats, username = name,
      triggerPulls = orZero (triggerPulls_st stats), deaths = orZero (deaths_st stats),
      maxStreak = orZero (maxStreak_st stats), rank = None,
      isPaid = isPaid_st stats, lastPlayed = lastPlayed_st stats\<rparr>"

text \<open>\<^verbatim>\<open>await updatePlayerStats(...); await updateLeaderboardEntry(...)\<close>.\<close>

definition record_stats ::
  "Env \<Rightarrow> string \<Rightarrow> PlayerStats \<Rightarrow> string option \<Rightarrow> StorageData \<Rightarrow> StorageData" where
  "record_stats env addr updatedStats name data =
     updateLeaderboardEntry (boardCap env) (modeOf updatedStats) (entryOf updatedStats name)
       (updatePlayerStats (dateNow env) addr updatedStats data)"

definition updateStats ::
  "Env \<Rightarrow> string \<Rightarrow> StatsInput option \<Rightarrow> string \<Rightarrow> StorageData
     \<Rightarrow> (Error + Response) \<times> StorageData" where
  "updateStats env addr stats name data =
     (case stats of
        None \<Rightarrow> (Inl MissingData, data)
      | Some given \<Rightarrow>
          if addr = [] then (Inl MissingData, data)
          else
            let existingStats = existingOr data addr (freshStats (dateNow env) addr (Some 0) None);
                updatedStats = existingStats
                  \<lparr>triggerPulls_st := orElse (triggerPulls_in given) (triggerPulls_st existingStats),
                   deaths_st := orElse (deaths_in given) (deaths_st existingStats),
                   maxStreak_st :=
                     (case maxStreak_in given of
                        Some m \<Rightarrow> Some (max (orZero (maxStreak_st existingStats)) m)
                      | None \<Rightarrow> Some (orZero (maxStreak_st existingStats))),
                   lastPlayed_st := Some (dateNow env),
                   isPaid_st := keep (isPaid_in given) (isPaid_st existingStats),
                   username_st := orElseStr (Some name) (username_st existingStats)\<rparr>
            in (Inr (StatsResponse updatedStats),
                updateLeaderboardEntry (boardCap env) (modeOf updatedStats)
                  ((entryOf updatedStats (username_st updatedStats))
                     \<lparr>isPaid := Some (truthy (isPaid_st updatedStats))\<rparr>)
                  (updatePlayerStats (dateNow env) addr updatedStats data)))"

definition triggerPull :: "Env \<Rightarrow> string \<Rightarrow> StorageData \<Rightarrow> (Error + Response) \<times> StorageData" where
  "triggerPull env addr data =
     (if addr = [] then (Inl MissingAddress, data)
      else
        let existingStats = existingOr data addr (freshStats (dateNow env) addr (Some 0) (Some 0));
            updatedStats = existingStats
              \<lparr>triggerPulls_st := Some (orZero (triggerPulls_st existingStats) + 1),
               currentStreak_st := Some (orZero (currentStreak_st existingStats) + 1),
               lastPlayed_st := Some (dateNow env)\<rparr>
        in (Inr (StatsResponse updatedStats),
            record_stats env addr updatedStats
              (orElseStr (username_st updatedStats) (username_st existingStats)) data))"

definition death :: "Env \<Rightarrow> string \<Rightarrow> StorageData \<Rightarrow> (Error + Response) \<times> StorageData" where
  "death env addr data =
     (if addr = [] then (Inl MissingAddress, data)
      else
        let existingStats = existingOr data addr (freshStats (dateNow env) addr (Some 0) (Some 0));
            updatedStats = existingStats
              \<lparr>deaths_st := Some (orZero (deaths_st existingStats) + 1),
               maxStreak_st := Some (max (orZero (maxStreak_st existingStats))
                                         (orZero (currentStreak_st existingStats))),
               currentStreak_st := Some 0,
               lastPlayed_st := Some (dateNow env)\<rparr>
        in (Inr (StatsResponse updatedStats),
            record_stats env addr updatedStats
              (orElseStr (username_st updatedStats) (username_st existingStats)) data))"

definition cashout :: "Env \<Rightarrow> string \<Rightarrow> StorageData \<Rightarrow> (Error + Response) \<times> StorageData" where
  "cashout env addr data =
     (if addr = [] then (Inl MissingAddress, data)
      else
        let existingStats = existingOr data addr (freshStats (dateNow env) addr (Some 0) (Some 0));
            updatedStats = existingStats
              \<lparr>maxStreak_st := Some (max (orZero (maxStreak_st existingStats)) 7),
               currentStreak_st := Some 0,
               lastPlayed_st := Some (dateNow env)\<rparr>
        in (Inr (StatsResponse updatedStats),
            record_stats env addr updatedStats
              (orElseStr (username_st updatedStats) (username_st existingStats)) data))"

definition setUsername ::
  "Env \<Rightarrow> string \<Rightarrow> string \<Rightarrow> StorageData \<Rightarrow> (Error + Response) \<times> StorageData" where
  "setUsername env addr name data =
     (if addr = [] \<or> name = [] then (Inl MissingAddressOrUsername, data)
      else
        let existingStats = existingOr data addr (freshStats (dateNow env) addr (Some 0) (Some 0));
            updatedStats = existingStats
              \<lparr>username_st := Some name, lastPlayed_st := Some (dateNow env)\<rparr>
        in (Inr (StatsResponse updatedStats),
            record_stats env addr updatedStats (username_st updatedStats) data))"

text \<open>
  \<^verbatim>\<open>joinPrizePool\<close>, as the route has it after the fix: the pool is incremented
  inside \<^verbatim>\<open>updatePrizePool\<close>; the player is marked paid.
\<close>

definition joinPrizePool :: "Env \<Rightarrow> string \<Rightarrow> StorageData \<Rightarrow> (Error + Response) \<times> StorageData" where
  "joinPrizePool env addr data =
     (if addr = [] then (Inl MissingAddress, data)
      else
        let data1 = updatePrizePool (dateNow env)
                      (noUpdate\<lparr>incrementAmount := Some 1, incrementParticipants := Some 1\<rparr>) data;
            existingStats = existingOr data1 addr (freshStats (dateNow env) addr None None);
            data2 = updatePlayerStats (dateNow env) addr (existingStats\<lparr>isPaid_st := Some True\<rparr>) data1
        in (Inr (PrizePoolResponse (prizePool data2)), data2))"

text \<open>
  \<^verbatim>\<open>joinPrizePool\<close>, as the route had it before: the new pool values are computed
  from \<^verbatim>\<open>getData()\<close>, the instance's cached document, and written as absolutes.
\<close>

definition joinPrizePool_cached ::
  "Env \<Rightarrow> StorageData \<Rightarrow> string \<Rightarrow> StorageData \<Rightarrow> (Error + Response) \<times> StorageData" where
  "joinPrizePool_cached env cached addr data =
     (if addr = [] then (Inl MissingAddress, data)
      else
        let data1 = updatePrizePool (dateNow env)
                      (noUpdate\<lparr>totalAmount_u := Some (totalAmount (prizePool cached) + 1),
                                participants_u := Some (participants (prizePool cached) + 1)\<rparr>) data;
            existingStats = existingOr data1 addr (freshStats (dateNow env) addr None None);
            data2 = updatePlayerStats (dateNow env) addr (existingStats\<lparr>isPaid_st := Some True\<rparr>) data1
        in (Inr (PrizePoolResponse (prizePool data2)), data2))"


subsection \<open>Prize distribution\<close>

text \<open>
  \<^verbatim>\<open>distributePrizes\<close> up to the saved log: the paid partition is read from the
  loaded document, the request is refused when there is nothing to distribute, and
  the calculator's payouts make the log.
\<close>

definition paidEntries :: "StorageData \<Rightarrow> PaidEntry list" where
  "paidEntries data =
     map (\<lambda>e. \<lparr>address_p = address e, maxStreak_p = maxStreak e,
                totalPulls = triggerPulls e, totalDeaths = deaths e\<rparr>)
         (paid (leaderboard data))"

definition distributionLogOf :: "nat \<Rightarrow> StorageData \<Rightarrow> Error + DistributionLog" where
  "distributionLogOf now data =
     (if paidEntries data = [] \<or> totalAmount (prizePool data) = 0 then Inl NothingToDistribute
      else
        let ds = calculatePrizeDistributionForLeaderboard now
                   (totalAmount (prizePool data)) (paidEntries data)
        in Inr \<lparr>distributionId = (case ds of d # _ \<Rightarrow> distributionId_d d | [] \<Rightarrow> now),
                timestamp = now,
                prizePoolAmount = totalAmount (prizePool data),
                participants_log = length (paidEntries data),
                distributions = ds,
                approvedBy = None, approvedAt = None\<rparr>)"

text \<open>
  \<^verbatim>\<open>// Reset prize pool after distribution\<close>:
  \<^verbatim>\<open>await updatePrizePool({totalAmount: 0, participants: 0})\<close>, applied to the document
  as it is when the reset runs.
\<close>

definition resetPrizePool :: "nat \<Rightarrow> StorageData \<Rightarrow> StorageData" where
  "resetPrizePool now data =
     updatePrizePool now (noUpdate\<lparr>totalAmount_u := Some 0, participants_u := Some 0\<rparr>) data"

text \<open>
  Modelled from the spec: \<^verbatim>\<open>saveDistributionLog\<close> of \<^verbatim>\<open>utils/prizeDistribution\<close>
  is not among the sources.  The distribution log is append-only.
\<close>

definition saveDistributionLog :: "DistributionLog \<Rightarrow> DistributionLog list \<Rightarrow> DistributionLog list" where
  "saveDistributionLog entry logs = logs @ [entry]"

definition distributePrizes :: "Env \<Rightarrow> ServerState \<Rightarrow> (Error + Response) \<times> ServerState" where
  "distributePrizes env st =
     (case distributionLogOf (dateNow env) (document st) of
        Inl e \<Rightarrow> (Inl e, st)
      | Inr distributionLog \<Rightarrow>
          let data' = resetPrizePool (dateNow env) (document st)
          in (Inr (DistributionResponse distributionLog (prizePool data')),
              st\<lparr>document := data',
                 distributionLogs := saveDistributionLog distributionLog (distributionLogs st)\<rparr>))"

text \<open>
  \<^verbatim>\<open>approveDistribution\<close>: in every log with the given identifier the first pending
  payout of the user is approved; \<^verbatim>\<open>found\<close> is one flag for the whole loop.
\<close>

fun approveFirst :: "nat \<Rightarrow> string \<Rightarrow> PrizeDistribution list \<Rightarrow> PrizeDistribution list \<times> bool" where
  "approveFirst now user [] = ([], False)"
| "approveFirst now user (d # ds) =
     (if toLowerCase (address_d d) = toLowerCase user \<and> status d = pending
      then (d\<lparr>status := approved, approvedAt_d := Some now\<rparr> # ds, True)
      else (let (ds', hit) = approveFirst now user ds in (d # ds', hit)))"

fun approveInLogs ::
  "nat \<Rightarrow> nat \<Rightarrow> string \<Rightarrow> bool \<Rightarrow> DistributionLog list \<Rightarrow> DistributionLog list \<times> bool" where
  "approveInLogs now ident user found [] = ([], found)"
| "approveInLogs now ident user found (l # ls) =
     (if distributionId l = ident then
        (let (ds', hit) = approveFirst now user (distributions l);
             found' = (found \<or> hit);
             l1 = l\<lparr>distributions := ds'\<rparr>;
             l2 = (if found' then l1\<lparr>approvedBy := Some user, approvedAt := Some now\<rparr> else l1);
             (ls', found'') = approveInLogs now ident user found' ls
         in (l2 # ls', found''))
      else (let (ls', found') = approveInLogs now ident user found ls in (l # ls', found')))"

definition approveDistribution ::
  "Env \<Rightarrow> nat option \<Rightarrow> string \<Rightarrow> ServerState \<Rightarrow> (Error + Response) \<times> ServerState" where
  "approveDistribution env ident userAddress st =
     (case ident of
        None \<Rightarrow> (Inl MissingDistributionIdOrAddress, st)
      | Some i \<Rightarrow>
          if userAddress = [] then (Inl MissingDistributionIdOrAddress, st)
          else
            let (logs', found) = approveInLogs (dateNow env) i userAddress False (distributionLogs st)
            in if \<not> found then (Inl DistributionNotFound, st)
               else (Inr (LogsResponse logs'), st\<lparr>distributionLogs := logs'\<rparr>))"

subsection \<open>Balance operations\<close>

text \<open>
  The transfer a deposit claims, as the \<^verbatim>\<open>deposit\<close> handler establishes it from
  the chain: \<open>(transferAmount, usdValue)\<close>, or the failure it answers with.
\<close>

fun findTransfer :: "string \<Rightarrow> ReceiptLog list \<Rightarrow> TransferEvent option" where
  "findTransfer usdc [] = None"
| "findTransfer usdc (l # ls) =
     (if toLowerCase (address_l l) = toLowerCase usdc then
        (case decoded l of Some ev \<Rightarrow> Some ev | None \<Rightarrow> findTransfer usdc ls)
      else findTransfer usdc ls)"

definition verifyTransfer ::
  "Env \<Rightarrow> string \<Rightarrow> string \<Rightarrow> string \<Rightarrow> Receipt \<Rightarrow> Error + rat \<times> rat" where
  "verifyTransfer env addr transactionHash currency receipt =
     (if currency = ''ETH'' then
        (case getTransaction env transactionHash of
           None \<Rightarrow> Inl TransactionNotFound
         | Some tx \<Rightarrow>
             let transferFrom = from_t tx;
                 transferTo = (case to_t tx of Some t \<Rightarrow> t | None \<Rightarrow> []);
                 transferAmount = of_nat (value_t tx) / 10 ^ 18
             in if toLowerCase transferFrom \<noteq> toLowerCase addr then Inl SenderMismatch
                else if toLowerCase transferTo \<noteq> toLowerCase ETH_DEPOSIT_WALLET
                  then Inl RecipientMismatch
                else Inr (transferAmount, transferAmount * ETH_PRICE_USD))
      else
        if map_option toLowerCase (to_r receipt) \<noteq> Some (toLowerCase (USDC_ADDRESS env))
        then Inl NotAUSDCTransfer
        else
          let found = findTransfer (USDC_ADDRESS env) (logs_r receipt);
              transferFrom = (case found of Some ev \<Rightarrow> from_e ev | None \<Rightarrow> []);
              transferTo = (case found of Some ev \<Rightarrow> to_e ev | None \<Rightarrow> []);
              transferAmount = (case found of Some ev \<Rightarrow> of_nat (value_e ev) / 1000000 | None \<Rightarrow> 0)
          in if toLowerCase transferFrom \<noteq> toLowerCase addr then Inl SenderMismatch
             else if Some (toLowerCase transferTo) \<noteq> map_option toLowerCase (DEPOSIT_WALLET env)
               then Inl RecipientMismatch
             else Inr (transferAmount, transferAmount))"

text \<open>
  \<^verbatim>\<open>if (expectedAmount && Math.abs(transferAmount - expectedAmount) > 0.0001)\<close>
  \<^verbatim>\<open>console.warn(...)\<close>: the lines the check prints.
\<close>

definition amountWarning :: "rat option \<Rightarrow> rat \<Rightarrow> ConsoleLine list" where
  "amountWarning expectedAmount transferAmount =
     (case expectedAmount of
        None \<Rightarrow> []
      | Some e \<Rightarrow> if e \<noteq> 0 \<and> \<bar>transferAmount - e\<bar> > 1 / 10000
                  then [AmountMismatch e transferAmount] else [])"

text \<open>
  The \<^verbatim>\<open>deposit\<close> handler.  Its call of the ledger is
  \<^verbatim>\<open>addBalance(address, usdValue, 'deposit')\<close>; the ledger function is the
  parameter \<open>credit\<close>.
\<close>

definition deposit ::
  "Env \<Rightarrow> (string \<Rightarrow> rat \<Rightarrow> TransactionType \<Rightarrow> StorageData \<Rightarrow> Error + StorageData)
     \<Rightarrow> string \<Rightarrow> string \<Rightarrow> rat option \<Rightarrow> string \<Rightarrow> ServerState
     \<Rightarrow> (Error + Response) \<times> ServerState" where
  "deposit env credit addr transactionHash expectedAmount currency st =
     (if addr = [] \<or> transactionHash = [] then (Inl MissingTransactionHash, st)
      else
        case getTransactionReceipt env transactionHash of
          None \<Rightarrow> (Inl TransactionNotFound, st)
        | Some receipt \<Rightarrow>
            if status_r receipt \<noteq> success then (Inl TransactionReverted, st)
            else
              (case verifyTransfer env addr transactionHash currency receipt of
                 Inl e \<Rightarrow> (Inl e, st)
               | Inr (transferAmount, usdValue) \<Rightarrow>
                   let st1 = st\<lparr>console := console st
                                       @ amountWarning expectedAmount transferAmount\<rparr>
                   in case credit addr usdValue deposit_tx (document st1) of
                        Inl e \<Rightarrow> (Inl e, st1)
                      | Inr data' \<Rightarrow>
                          (Inr (DepositResponse (getPlayerBalance (dateNow env) data' addr)
                                  transferAmount currency usdValue transactionHash),
                           st1\<lparr>document := data'\<rparr>)))"

definition withdraw ::
  "Env \<Rightarrow> string \<Rightarrow> rat option \<Rightarrow> StorageData \<Rightarrow> (Error + Response) \<times> StorageData" where
  "withdraw env addr amount data =
     (case amount of
        None \<Rightarrow> (Inl InvalidWithdrawalData, data)
      | Some a \<Rightarrow>
          if addr = [] \<or> a \<le> 0 then (Inl InvalidWithdrawalData, data)
          else
            case deductBalance (dateNow env) addr a withdrawal_tx data of
              Inl e \<Rightarrow> (Inl e, data)
            | Inr data' \<Rightarrow>
                (Inr (BalanceResponse (getPlayerBalance (dateNow env) data' addr)), data'))"

definition approvePrize ::
  "Env \<Rightarrow> string \<Rightarrow> rat option \<Rightarrow> StorageData \<Rightarrow> (Error + Response) \<times> StorageData" where
  "approvePrize env addr amount data =
     (case amount of
        None \<Rightarrow> (Inl InvalidPrizeApprovalData, data)
      | Some a \<Rightarrow>
          if addr = [] \<or> a \<le> 0 then (Inl InvalidPrizeApprovalData, data)
          else
            case approvePendingPrize (dateNow env) addr a data of
              Inl e \<Rightarrow> (Inl e, data)
            | Inr data' \<Rightarrow>
                (Inr (BalanceResponse (getPlayerBalance (dateNow env) data' addr)), data'))"

subsection \<open>The exposed operations\<close>

datatype Request =
    UpdateStats string "StatsInput option" string
  | TriggerPull string
  | Death string
  | Cashout string
  | SetUsername string string
  | JoinPrizePool string
  | DistributePrizes
  | ApproveDistribution "nat option" string
  | Deposit string string "rat option" string
  | Withdraw string "rat option"
  | ApprovePrize string "rat option"

definition onDocument ::
  "(StorageData \<Rightarrow> (Error + Response) \<times> StorageData) \<Rightarrow> ServerState
     \<Rightarrow> (Error + Response) \<times> ServerState" where
  "onDocument handler st = (let (r, data') = handler (document st) in (r, st\<lparr>document := data'\<rparr>))"

fun POST :: "Env \<Rightarrow> Request \<Rightarrow> ServerState \<Rightarrow> (Error + Response) \<times> ServerState" where
  "POST env (UpdateStats addr stats name) st = onDocument (updateStats env addr stats name) st"
| "POST env (TriggerPull addr) st = onDocument (triggerPull env addr) st"
| "POST env (Death addr) st = onDocument (death env addr) st"
| "POST env (Cashout addr) st = onDocument (cashout env addr) st"
| "POST env (SetUsername addr name) st = onDocument (setUsername env addr name) st"
| "POST env (JoinPrizePool addr) st = onDocument (joinPrizePool env addr) st"
| "POST env DistributePrizes st = distributePrizes env st"
| "POST env (ApproveDistribution ident user) st = approveDistribution env ident user st"
| "POST env (Deposit addr transactionHash expectedAmount currency) st =
     deposit env (\<lambda>a v k. addBalance (dateNow env) a v k None) addr transactionHash
       expectedAmount currency st"
| "POST env (Withdraw addr amount) st = onDocument (withdraw env addr amount) st"
| "POST env (ApprovePrize addr amount) st = onDocument (approvePrize env addr amount) st"


section \<open>Store engine\<close>

text \<open>
  The backend holds one value under the key \<^verbatim>\<open>game-data\<close>, or none.  It may
  refuse a write; \<^verbatim>\<open>saveData\<close> catches that and prints a line.
\<close>

record Store =
  remote :: "StorageData option"
  accepting :: bool
  printed :: "ConsoleLine list"

definition entryCount :: "StorageData \<Rightarrow> nat" where
  "entryCount data = length (free (leaderboard data)) + length (paid (leaderboard data))"

text \<open>
  \<^verbatim>\<open>loadData\<close>: the fetched document, or the instance's cached one when the key
  is absent.
\<close>

definition loadData :: "StorageData \<Rightarrow> Store \<Rightarrow> StorageData" where
  "loadData cachedData store = (case remote store of Some data \<Rightarrow> data | None \<Rightarrow> cachedData)"

text \<open>
  \<^verbatim>\<open>saveData\<close> with its guard against an empty overwrite.  The function is
  \<^verbatim>\<open>Promise<void>\<close> and throws nowhere: what the caller gets back is the first
  component, and it is \<open>Inr ()\<close> on every path.
\<close>

definition writeData :: "StorageData \<Rightarrow> Store \<Rightarrow> Store" where
  "writeData data store =
     (if accepting store then store\<lparr>remote := Some data\<rparr>
      else store\<lparr>printed := printed store @ [CouldNotSave]\<rparr>)"

definition saveData :: "StorageData \<Rightarrow> Store \<Rightarrow> (Error + unit) \<times> Store" where
  "saveData data store =
     (case remote store of
        Some currentData \<Rightarrow>
          if entryCount currentData > 0 \<and> entryCount data = 0
          then (Inr (), store\<lparr>printed := printed store @ [BlockedEmptyOverwrite]\<rparr>)
          else (Inr (), writeData data store)
      | None \<Rightarrow> (Inr (), writeData data store))"

text \<open>
  The shape of every write function of the storage module: load, change, save.
\<close>

definition mutate ::
  "(StorageData \<Rightarrow> StorageData) \<Rightarrow> StorageData \<Rightarrow> Store \<Rightarrow> (Error + unit) \<times> Store" where
  "mutate operation cachedData store = saveData (operation (loadData cachedData store)) store"

subsection \<open>Two callers of \<^verbatim>\<open>updatePrizePool\<close>\<close>

text \<open>
  \<^verbatim>\<open>const data = await loadData(); data.prizePool = ...; await saveData(data)\<close>:
  a call of \<^verbatim>\<open>updatePrizePool\<close> touches the backend twice, at its two
  \<^verbatim>\<open>await\<close>s, and another call may run between them.  A call is ready, has
  loaded its document, or has finished; a schedule names the caller that takes its
  next step.  Each caller is a fresh instance, whose cached document is the initial
  one.
\<close>

datatype Call = Ready | Loaded StorageData | Finished

datatype Caller = A | B

record World =
  store :: Store
  callA :: Call
  callB :: Call

definition stepCall :: "nat \<Rightarrow> PoolUpdate \<Rightarrow> Store \<Rightarrow> Call \<Rightarrow> Store \<times> Call" where
  "stepCall now update st c =
     (case c of
        Ready \<Rightarrow> (st, Loaded (loadData (initialData 0) st))
      | Loaded data \<Rightarrow> (snd (saveData (updatePrizePool now update data) st), Finished)
      | Finished \<Rightarrow> (st, Finished))"

fun run :: "nat \<Rightarrow> PoolUpdate \<Rightarrow> Caller list \<Rightarrow> World \<Rightarrow> World" where
  "run now update [] w = w"
| "run now update (A # schedule) w =
     (let (st, c) = stepCall now update (store w) (callA w)
      in run now update schedule (w\<lparr>store := st, callA := c\<rparr>))"
| "run now update (B # schedule) w =
     (let (st, c) = stepCall now update (store w) (callB w)
      in run now update schedule (w\<lparr>store := st, callB := c\<rparr>))"

definition startWorld :: "StorageData \<Rightarrow> World" where
  "startWorld data =
     \<lparr>store = \<lparr>remote = Some data, accepting = True, printed = []\<rparr>,
      callA = Ready, callB = Ready\<rparr>"

definition incrementPool :: PoolUpdate where
  "incrementPool = noUpdate\<lparr>incrementAmount := Some 1, incrementParticipants := Some 1\<rparr>"

definition poolOf :: "World \<Rightarrow> (rat \<times> int) option" where
  "poolOf w = map_option (\<lambda>data. (totalAmount (prizePool data), participants (prizePool data)))
                (remote (store w))"

section \<open>Stated properties\<close>

text \<open>
  A player's stored best streak and current streak, read as the handlers read
  them (\<^verbatim>\<open>stats.maxStreak || 0\<close>); a player without stats has streak 0.
\<close>

definition streakOf :: "StorageData \<Rightarrow> string \<Rightarrow> int" where
  "streakOf data addr =
     (case playerStats data addr of None \<Rightarrow> 0 | Some s \<Rightarrow> orZero (maxStreak_st s))"

definition currentOf :: "StorageData \<Rightarrow> string \<Rightarrow> int" where
  "currentOf data addr =
     (case playerStats data addr of None \<Rightarrow> 0 | Some s \<Rightarrow> orZero (currentStreak_st s))"

text \<open>The ledger invariant: no stored balance and no stored pending prize is negative.\<close>

definition balancesNonNegative :: "StorageData \<Rightarrow> bool" where
  "balancesNonNegative data \<longleftrightarrow>
     (\<forall>addr b. playerBalances data addr = Some b \<longrightarrow> 0 \<le> balance b \<and> 0 \<le> pendingPrizes b)"

text \<open>What the ledger reads as an address's balance and pending prizes.\<close>

definition balanceOf :: "StorageData \<Rightarrow> string \<Rightarrow> rat" where
  "balanceOf data addr = (case playerBalances data addr of None \<Rightarrow> 0 | Some b \<Rightarrow> balance b)"

definition pendingOf :: "StorageData \<Rightarrow> string \<Rightarrow> rat" where
  "pendingOf data addr = (case playerBalances data addr of None \<Rightarrow> 0 | Some b \<Rightarrow> pendingPrizes b)"

text \<open>
  The transfer a deposit request points at, as the handler reads it from the
  chain: sender, recipient and amount in units of the currency (for USDC the first
  decodable \<^verbatim>\<open>Transfer\<close> log of the token contract, or the handler's initial
  values when there is none); the address deposits of the currency must go to;
  and the conversion of an amount to the ledger's unit of account.
\<close>

definition readTransfer :: "Env \<Rightarrow> string \<Rightarrow> string \<Rightarrow> Receipt \<Rightarrow> (string \<times> string \<times> rat) option" where
  "readTransfer env transactionHash currency receipt =
     (if currency = ''ETH'' then
        (case getTransaction env transactionHash of
           None \<Rightarrow> None
         | Some tx \<Rightarrow> Some (from_t tx, (case to_t tx of Some t \<Rightarrow> t | None \<Rightarrow> []),
                           of_nat (value_t tx) / 10 ^ 18))
      else
        (case findTransfer (USDC_ADDRESS env) (logs_r receipt) of
           None \<Rightarrow> Some ([], [], 0)
         | Some ev \<Rightarrow> Some (from_e ev, to_e ev, of_nat (value_e ev) / 1000000)))"

definition depositWallet :: "Env \<Rightarrow> string \<Rightarrow> string option" where
  "depositWallet env currency =
     (if currency = ''ETH'' then Some ETH_DEPOSIT_WALLET else DEPOSIT_WALLET env)"

definition usdValueOf :: "string \<Rightarrow> rat \<Rightarrow> rat" where
  "usdValueOf currency transferAmount =
     (if currency = ''ETH'' then transferAmount * ETH_PRICE_USD else transferAmount)"

definition sameAddressCI :: "string \<Rightarrow> string \<Rightarrow> bool" where
  "sameAddressCI a b \<longleftrightarrow> toLowerCase a = toLowerCase b"

text \<open>The payouts a response to \<^verbatim>\<open>distributePrizes\<close> lists, in rank order.\<close>

definition payoutsOf :: "Error + Response \<Rightarrow> rat list" where
  "payoutsOf r =
     (case r of
        Inr (DistributionResponse distributionLog pool) \<Rightarrow> map amount_d (distributions distributionLog)
      | _ \<Rightarrow> [])"

text \<open>
  The payouts of a response with their recipients: address and amount of each
  payout, in the order of the response.
\<close>

definition payeesOf :: "Error + Response \<Rightarrow> (string \<times> rat) list" where
  "payeesOf r =
     (case r of
        Inr (DistributionResponse distributionLog pool) \<Rightarrow>
          map (\<lambda>d. (address_d d, amount_d d)) (distributions distributionLog)
      | _ \<Rightarrow> [])"

text \<open>
  The paid participants in rank order, best first: the paid partition of the
  leaderboard, ordered by the leaderboard's comparator with ties in arrival order.
\<close>

definition rankedPaid :: "StorageData \<Rightarrow> LeaderboardEntry list" where
  "rankedPaid data = sortBy compareEntries (paid (leaderboard data))"

text \<open>
  The calculator's order on its input, in the specification's words: higher
  \<open>maxStreak\<close> first, then more pulls, then fewer deaths; and the sort key of an
  entry, by which two entries tie.
\<close>

definition rankedBeforePaid :: "PaidEntry \<Rightarrow> PaidEntry \<Rightarrow> bool" where
  "rankedBeforePaid a b \<longleftrightarrow>
     maxStreak_p a > maxStreak_p b
     \<or> (maxStreak_p a = maxStreak_p b
        \<and> (totalPulls a > totalPulls b
           \<or> (totalPulls a = totalPulls b \<and> totalDeaths a \<le> totalDeaths b)))"

definition sortKey :: "LeaderboardEntry \<Rightarrow> int \<times> int \<times> int" where
  "sortKey e = (maxStreak e, triggerPulls e, deaths e)"

definition sortKeyPaid :: "PaidEntry \<Rightarrow> int \<times> int \<times> int" where
  "sortKeyPaid p = (maxStreak_p p, totalPulls p, totalDeaths p)"

text \<open>The amount a distribution was computed from.\<close>

definition distributedAmount :: "Error + DistributionLog \<Rightarrow> rat" where
  "distributedAmount r = (case r of Inr distributionLog \<Rightarrow> prizePoolAmount distributionLog | Inl e \<Rightarrow> 0)"

section \<open>Example data\<close>

definition exampleEntry :: "string \<Rightarrow> int \<Rightarrow> int \<Rightarrow> int \<Rightarrow> LeaderboardEntry" where
  "exampleEntry a pulls ds streak =
     \<lparr>address = a, username = None, triggerPulls = pulls, deaths = ds, maxStreak = streak,
      rank = None, isPaid = Some False, lastPlayed = None\<rparr>"

definition exampleBoard :: "LeaderboardEntry list" where
  "exampleBoard = [(exampleEntry ''0xCD'' 5 0 2)\<lparr>rank := Some 1\<rparr>,
                   (exampleEntry ''0xAb'' 3 1 2)\<lparr>rank := Some 2\<rparr>]"

definition exampleStats :: PlayerStats where
  "exampleStats =
     \<lparr>address_st = ''0xAb'', triggerPulls_st = Some 12, deaths_st = Some 2,
      maxStreak_st = Some 3, currentStreak_st = Some 5, username_st = Some ''ann'',
      isPaid_st = Some True, lastPlayed_st = Some 900, lastUpdated_st = Some 900\<rparr>"

definition exampleBalance :: PlayerBalance where
  "exampleBalance =
     \<lparr>balance = 10, pendingPrizes = 4, totalDeposited = 10, totalWithdrawn = 0,
      lastUpdated_b = 900, transactions = []\<rparr>"

definition exampleData :: StorageData where
  "exampleData =
     \<lparr>leaderboard = \<lparr>free = [], paid = exampleBoard\<rparr>,
      prizePool = \<lparr>totalAmount = 100, participants = 2, lastUpdated = 900\<rparr>,
      playerStats = [''0xAb'' \<mapsto> exampleStats],
      playerBalances = [''0xAb'' \<mapsto> exampleBalance]\<rparr>"

definition exampleState :: ServerState where
  "exampleState = \<lparr>document = exampleData, distributionLogs = [], console = []\<rparr>"

text \<open>
  A chain that knows two transactions: \<open>0xt1\<close>, a USDC transfer of 10 USDC from
  \<open>0xab\<close> to the deposit wallet, and \<open>0xt2\<close>, a transfer of 0.002 ETH from \<open>0xAB\<close>
  to the ETH deposit wallet.
\<close>

definition exampleReceipt :: Receipt where
  "exampleReceipt =
     \<lparr>status_r = success, to_r = Some ''0x5dc'',
      logs_r = [\<lparr>address_l = ''0x999'', decoded = None\<rparr>,
                \<lparr>address_l = ''0x5DC'',
                 decoded = Some \<lparr>from_e = ''0xab'', to_e = ''0xDE90'', value_e = 10000000\<rparr>\<rparr>]\<rparr>"

definition exampleEnv :: Env where
  "exampleEnv =
     \<lparr>dateNow = 1000, boardCap = Some 50,
      getTransactionReceipt =
        (\<lambda>h. if h = ''0xt1'' then Some exampleReceipt
              else if h = ''0xt2'' then Some \<lparr>status_r = success, to_r = None, logs_r = []\<rparr>
              else None),
      getTransaction =
        (\<lambda>h. if h = ''0xt2''
              then Some \<lparr>from_t = ''0xAB'',
                         to_t = Some ''0x0b9188dce5f4c8a9ead3bf4d2faf1a7afd7027aa'',
                         value_t = 2000000000000000\<rparr>
              else None),
      USDC_ADDRESS = ''0x5dC'', DEPOSIT_WALLET = Some ''0xde90''\<rparr>"

definition examplePaid :: "nat \<Rightarrow> LeaderboardEntry list" where
  "examplePaid n = map (\<lambda>i. exampleEntry (''0x'' @ replicate i CHR ''a'') (int i) 0 3) [0 ..< n]"

definition examplePool :: "nat \<Rightarrow> ServerState" where
  "examplePool n =
     exampleState\<lparr>document := exampleData\<lparr>leaderboard := \<lparr>free = [], paid = examplePaid n\<rparr>\<rparr>\<rparr>"

definition exampleStore :: Store where
  "exampleStore = \<lparr>remote = Some exampleData, accepting = True, printed = []\<rparr>"

section \<open>Properties\<close>

subsection \<open>Leaderboard ranker\<close>

lemma compareEntries_le: "compareEntries a b \<le> 0 \<longleftrightarrow> rankedBefore a b"
  by (auto simp: compareEntries_def rankedBefore_def)

lemma rankedBefore_total: "rankedBefore a b \<or> rankedBefore b a"
  by (auto simp: rankedBefore_def)

lemma rankedBefore_trans: "rankedBefore a b \<Longrightarrow> rankedBefore b c \<Longrightarrow> rankedBefore a c"
  by (auto simp: rankedBefore_def)

lemma set_insertBy: "set (insertBy cmp x ys) = insert x (set ys)"
  by (induction ys) auto

lemma set_sortBy: "set (sortBy cmp xs) = set xs"
  by (induction xs) (auto simp: set_insertBy)

lemma length_insertBy: "length (insertBy cmp x ys) = Suc (length ys)"
  by (induction ys) auto

lemma length_sortBy: "length (sortBy cmp xs) = length xs"
  by (induction xs) (auto simp: length_insertBy)

lemma sorted_insertBy:
  "sorted_wrt rankedBefore ys \<Longrightarrow> sorted_wrt rankedBefore (insertBy compareEntries x ys)"
proof (induction ys)
  case Nil
  then show ?case by simp
next
  case (Cons y ys)
  show ?case
  proof (cases "compareEntries x y \<le> 0")
    case True
    then have xy: "rankedBefore x y" by (simp add: compareEntries_le)
    with Cons.prems show ?thesis using True
      by (auto intro: rankedBefore_trans)
  next
    case False
    then have yx: "rankedBefore y x"
      using rankedBefore_total [of x y] by (simp add: compareEntries_le)
    with Cons show ?thesis using False
      by (auto simp: set_insertBy)
  qed
qed

lemma sorted_sortBy: "sorted_wrt rankedBefore (sortBy compareEntries xs)"
  by (induction xs) (auto intro: sorted_insertBy)

lemma distinct_map_insertBy:
  "distinct (map f (insertBy cmp x ys)) \<longleftrightarrow> f x \<notin> f ` set ys \<and> distinct (map f ys)"
  by (induction ys) (auto simp: set_insertBy)

lemma distinct_map_sortBy: "distinct (map f (sortBy cmp xs)) \<longleftrightarrow> distinct (map f xs)"
  by (induction xs) (auto simp: distinct_map_insertBy set_sortBy)

lemma set_removeFirst_subset: "set (removeFirst p xs) \<subseteq> set xs"
  by (induction xs) auto

lemma distinct_map_removeFirst:
  "distinct (map f xs) \<Longrightarrow> distinct (map f (removeFirst p xs))"
  using set_removeFirst_subset [of p] by (induction xs) (auto; blast)+

lemma removeFirst_no_match:
  "distinct (map f xs) \<Longrightarrow> x \<in> set (removeFirst (\<lambda>e. f e = k) xs) \<Longrightarrow> f x \<noteq> k"
  by (induction xs) (force split: if_splits)+

lemma map_address_assignRanks: "map address (assignRanks i es) = map address es"
  by (induction i es rule: assignRanks.induct) auto

lemma length_assignRanks: "length (assignRanks i es) = length es"
  by (induction i es rule: assignRanks.induct) auto

lemma map_rank_assignRanks: "map rank (assignRanks i es) = map Some [i + 1 ..< i + 1 + length es]"
proof (induction i es rule: assignRanks.induct)
  case (1 i)
  then show ?case by simp
next
  case (2 i e es)
  have "[i + 1 ..< i + 1 + length (e # es)] = (i + 1) # [i + 1 + 1 ..< i + 1 + 1 + length es]"
    by (simp add: upt_rec)
  with 2 show ?case by simp
qed

lemma assignRanks_nth:
  "n < length es \<Longrightarrow> assignRanks i es ! n = (es ! n)\<lparr>rank := Some (i + n + 1)\<rparr>"
proof (induction i es arbitrary: n rule: assignRanks.induct)
  case (1 i)
  then show ?case by simp
next
  case (2 i e es)
  then show ?case by (cases n) auto
qed

lemma rankedBefore_rank_update [simp]:
  "rankedBefore (a\<lparr>rank := r\<rparr>) (b\<lparr>rank := s\<rparr>) = rankedBefore a b"
  by (simp add: rankedBefore_def)

lemma sorted_assignRanks:
  "sorted_wrt rankedBefore es \<Longrightarrow> sorted_wrt rankedBefore (assignRanks i es)"
  by (simp add: sorted_wrt_iff_nth_less length_assignRanks assignRanks_nth)


lemma assignRanks_elem:
  "x \<in> set (assignRanks i es) \<Longrightarrow> \<exists>e\<in>set es. x = e\<lparr>rank := rank x\<rparr>"
  by (induction i es rule: assignRanks.induct) auto

lemma assignRanks_present:
  "e \<in> set es \<Longrightarrow> \<exists>x\<in>set (assignRanks i es). x = e\<lparr>rank := rank x\<rparr>"
  by (induction i es rule: assignRanks.induct) auto

lemma uniqueAddresses_pushed:
  assumes "uniqueAddresses board"
  shows "uniqueAddresses (removeFirst (sameAddress entry) board @ [entry])"
proof -
  let ?f = "\<lambda>e. toLowerCase (address e)"
  have p: "sameAddress entry = (\<lambda>e. ?f e = ?f entry)"
    by (simp add: sameAddress_def fun_eq_iff)
  from assms have d: "distinct (map ?f board)" by (simp add: uniqueAddresses_def)
  then have "distinct (map ?f (removeFirst (sameAddress entry) board))"
    by (rule distinct_map_removeFirst)
  moreover have "?f entry \<notin> ?f ` set (removeFirst (sameAddress entry) board)"
  proof
    assume "?f entry \<in> ?f ` set (removeFirst (sameAddress entry) board)"
    then obtain x where "x \<in> set (removeFirst (\<lambda>e. ?f e = ?f entry) board)" "?f x = ?f entry"
      unfolding p by auto
    with removeFirst_no_match [OF d] show False by blast
  qed
  ultimately show ?thesis by (simp add: uniqueAddresses_def)
qed

lemma uniqueAddresses_ranked:
  "uniqueAddresses (assignRanks i (sortBy cmp es)) = uniqueAddresses es"
proof -
  have "map (\<lambda>e. toLowerCase (address e)) (assignRanks i (sortBy cmp es))
        = map toLowerCase (map address (assignRanks i (sortBy cmp es)))"
    by simp
  also have "\<dots> = map (\<lambda>e. toLowerCase (address e)) (sortBy cmp es)"
    by (simp only: map_address_assignRanks) simp
  finally show ?thesis by (simp add: uniqueAddresses_def distinct_map_sortBy)
qed

lemma wellRanked_ranked:
  assumes "uniqueAddresses es"
  shows "wellRanked (assignRanks 0 (sortBy compareEntries es))"
  using assms
  by (simp add: wellRanked_def uniqueAddresses_ranked sorted_assignRanks sorted_sortBy
      map_rank_assignRanks length_assignRanks)

lemma wellRanked_take:
  assumes "wellRanked es"
  shows "wellRanked (take n es)"
proof -
  from assms have s: "sorted_wrt rankedBefore es"
    and r: "map rank es = map Some [1 ..< length es + 1]"
    and u: "distinct (map (\<lambda>e. toLowerCase (address e)) es)"
    by (simp_all add: wellRanked_def uniqueAddresses_def)
  have "sorted_wrt rankedBefore (take n es)"
    using s by (rule sorted_wrt_take)
  moreover have "map rank (take n es) = map Some [1 ..< length (take n es) + 1]"
  proof -
    have "map rank (take n es) = take n (map rank es)" by (simp add: take_map)
    also have "\<dots> = map Some (take n [1 ..< length es + 1])" by (simp add: r take_map)
    also have "take n [1 ..< length es + 1] = [1 ..< length (take n es) + 1]"
      by (simp add: take_upt min_def)
    finally show ?thesis .
  qed
  moreover have "distinct (map (\<lambda>e. toLowerCase (address e)) (take n es))"
    using distinct_take [OF u, of n] by (simp add: take_map)
  ultimately show ?thesis by (simp add: wellRanked_def uniqueAddresses_def)
qed

lemma upsert_wellRanked:
  assumes "uniqueAddresses board"
  shows "wellRanked (upsert cap board entry)"
proof -
  let ?ranked = "assignRanks 0 (sortBy compareEntries (removeFirst (sameAddress entry) board @ [entry]))"
  have w: "wellRanked ?ranked"
    by (rule wellRanked_ranked) (rule uniqueAddresses_pushed [OF assms])
  show ?thesis
  proof (cases cap)
    case None
    with w show ?thesis by (simp add: upsert_def Let_def)
  next
    case (Some n)
    with w wellRanked_take [OF w, of n] show ?thesis by (simp add: upsert_def Let_def)
  qed
qed

lemma upsert_elem:
  assumes "x \<in> set (upsert cap board entry)"
  shows "\<exists>e\<in>set (removeFirst (sameAddress entry) board) \<union> {entry}. x = e\<lparr>rank := rank x\<rparr>"
proof -
  let ?pushed = "removeFirst (sameAddress entry) board @ [entry]"
  let ?ranked = "assignRanks 0 (sortBy compareEntries ?pushed)"
  have "set (upsert cap board entry) \<subseteq> set ?ranked"
    by (cases cap) (auto simp: upsert_def Let_def dest: in_set_takeD)
  with assms have "x \<in> set ?ranked" by blast
  then obtain e where "e \<in> set (sortBy compareEntries ?pushed)" "x = e\<lparr>rank := rank x\<rparr>"
    using assignRanks_elem by blast
  then show ?thesis by (auto simp: set_sortBy)
qed

lemma upsert_replaces:
  assumes "uniqueAddresses board" "x \<in> set (upsert cap board entry)" "sameAddress entry x"
  shows "x = entry\<lparr>rank := rank x\<rparr>"
proof -
  let ?f = "\<lambda>e. toLowerCase (address e)"
  from assms(1) have d: "distinct (map ?f board)" by (simp add: uniqueAddresses_def)
  have p: "sameAddress entry = (\<lambda>e. ?f e = ?f entry)"
    by (simp add: sameAddress_def fun_eq_iff)
  obtain e where e: "e \<in> set (removeFirst (sameAddress entry) board) \<union> {entry}"
    and x: "x = e\<lparr>rank := rank x\<rparr>"
    using upsert_elem [OF assms(2)] by blast
  have "address x = address e" by (subst x) simp
  with assms(3) have "?f e = ?f entry" by (simp add: sameAddress_def)
  moreover have "e \<in> set (removeFirst (\<lambda>e. ?f e = ?f entry) board) \<or> e = entry"
    using e unfolding p by blast
  ultimately have "e = entry"
    using removeFirst_no_match [OF d, of e "?f entry"] by blast
  with x show ?thesis by simp
qed

lemma upsert_uncapped_present:
  "\<exists>x\<in>set (upsert None board entry). x = entry\<lparr>rank := rank x\<rparr>"
proof -
  have "entry \<in> set (sortBy compareEntries (removeFirst (sameAddress entry) board @ [entry]))"
    by (simp add: set_sortBy)
  then show ?thesis
    by (simp add: upsert_def Let_def assignRanks_present)
qed

lemma upserts_wellRanked:
  "wellRanked board \<Longrightarrow> wellRanked (upserts cap board entries)"
  unfolding upserts_def
proof (induction entries arbitrary: board)
  case Nil
  then show ?case by simp
next
  case (Cons e es)
  from Cons.prems have "uniqueAddresses board" by (simp add: wellRanked_def)
  then have "wellRanked (upsert cap board e)" by (rule upsert_wellRanked)
  then show ?case using Cons.IH by simp
qed

text \<open>
  Claim C5.  After any sequence of upserts into an empty partition the partition is
  ordered by \<open>maxStreak\<close> descending, then \<open>triggerPulls\<close> descending, then
  \<open>deaths\<close> ascending, its ranks are \<open>1..N\<close> by position, and no two entries have
  the same address up to letter case.  One upsert into any partition with unique
  addresses gives such a partition again, in which the only entry with the upserted
  address is the upserted entry with its new rank; without a cap that entry is
  there.  This holds with and without the cap of 50.
\<close>

theorem upserts_keep_partition_ranked:
  "wellRanked (upserts cap [] entries)
   \<and> (uniqueAddresses board \<longrightarrow>
        wellRanked (upsert cap board entry)
        \<and> (\<forall>x\<in>set (upsert cap board entry). sameAddress entry x \<longrightarrow> x = entry\<lparr>rank := rank x\<rparr>))
   \<and> (\<exists>x\<in>set (upsert None board entry). x = entry\<lparr>rank := rank x\<rparr>)"
proof -
  have "wellRanked []" by (simp add: wellRanked_def uniqueAddresses_def)
  then have a: "wellRanked (upserts cap [] entries)" by (rule upserts_wellRanked)
  have b: "wellRanked (upsert cap board entry)" if "uniqueAddresses board"
    using that by (rule upsert_wellRanked)
  have c: "x = entry\<lparr>rank := rank x\<rparr>"
    if "uniqueAddresses board" "x \<in> set (upsert cap board entry)" "sameAddress entry x" for x
    using that by (rule upsert_replaces)
  have d: "\<exists>x\<in>set (upsert None board entry). x = entry\<lparr>rank := rank x\<rparr>"
    by (rule upsert_uncapped_present)
  from a b c d show ?thesis by blast
qed

lemmas example_defs = exampleEntry_def exampleBoard_def upserts_def upsert_def sameAddress_def
  toLowerCase_def toLowerCase_char_def upper_lower_table_def compareEntries_def
  uniqueAddresses_def wellRanked_def rankedBefore_def

theorem upserts_keep_partition_ranked_witness:
  "uniqueAddresses exampleBoard
   \<and> upsert (Some 50) exampleBoard (exampleEntry ''0xab'' 9 4 7)
       = [(exampleEntry ''0xab'' 9 4 7)\<lparr>rank := Some 1\<rparr>,
          (exampleEntry ''0xCD'' 5 0 2)\<lparr>rank := Some 2\<rparr>]
   \<and> wellRanked (upsert (Some 50) exampleBoard (exampleEntry ''0xab'' 9 4 7))
   \<and> sameAddress (exampleEntry ''0xab'' 9 4 7) ((exampleEntry ''0xAb'' 3 1 2)\<lparr>rank := Some 2\<rparr>)
   \<and> wellRanked (upserts (Some 50) [] [exampleEntry ''0xAb'' 3 1 2, exampleEntry ''0xCD'' 5 0 2])"
proof -
  have u: "uniqueAddresses exampleBoard"
    by (simp add: example_defs)
  have e: "upsert (Some 50) exampleBoard (exampleEntry ''0xab'' 9 4 7)
       = [(exampleEntry ''0xab'' 9 4 7)\<lparr>rank := Some 1\<rparr>,
          (exampleEntry ''0xCD'' 5 0 2)\<lparr>rank := Some 2\<rparr>]"
    by (simp add: example_defs)
  have s: "sameAddress (exampleEntry ''0xab'' 9 4 7) ((exampleEntry ''0xAb'' 3 1 2)\<lparr>rank := Some 2\<rparr>)"
    by (simp add: example_defs)
  from upserts_keep_partition_ranked
         [of "Some 50" "[exampleEntry ''0xAb'' 3 1 2, exampleEntry ''0xCD'' 5 0 2]"
             exampleBoard "exampleEntry ''0xab'' 9 4 7"] u e s
  show ?thesis by blast
qed

subsection \<open>The best streak never decreases\<close>

lemma playerStats_updateLeaderboardEntry [simp]:
  "playerStats (updateLeaderboardEntry cap mode e data) = playerStats data"
  by (cases mode) (simp_all add: updateLeaderboardEntry_def)

lemma playerStats_updatePrizePool [simp]:
  "playerStats (updatePrizePool now u data) = playerStats data"
  by (simp add: updatePrizePool_def)

lemma playerStats_updatePlayerStats:
  "playerStats (updatePlayerStats now addr stats data)
   = (playerStats data)(addr \<mapsto> (spreadStats (playerStats data addr) stats)\<lparr>lastUpdated_st := Some now\<rparr>)"
  by (simp add: updatePlayerStats_def)

lemma streakOf_record_stats_other:
  "a \<noteq> addr \<Longrightarrow> streakOf (record_stats env addr stats name data) a = streakOf data a"
  by (simp add: streakOf_def record_stats_def playerStats_updatePlayerStats)

lemma maxStreak_spreadStats:
  "maxStreak_st (spreadStats stored stats)
   = (case stored of None \<Rightarrow> maxStreak_st stats
      | Some old \<Rightarrow> keep (maxStreak_st stats) (maxStreak_st old))"
  by (simp add: spreadStats_def split: option.splits)

lemma streakOf_updatePlayerStats:
  "streakOf (updatePlayerStats now addr stats data) a
   = (if a = addr
      then (case maxStreak_st stats of Some v \<Rightarrow> v | None \<Rightarrow> streakOf data addr)
      else streakOf data a)"
  by (simp add: streakOf_def playerStats_updatePlayerStats maxStreak_spreadStats keep_def orZero_def
      split: option.splits)

lemma streakOf_updateLeaderboardEntry [simp]:
  "streakOf (updateLeaderboardEntry cap mode e data) a = streakOf data a"
  by (simp add: streakOf_def)

lemma streakOf_updatePrizePool [simp]:
  "streakOf (updatePrizePool now u data) a = streakOf data a"
  by (simp add: streakOf_def)

lemma streakOf_record_stats:
  "streakOf (record_stats env addr stats name data) a
   = (if a = addr
      then (case maxStreak_st stats of Some v \<Rightarrow> v | None \<Rightarrow> streakOf data addr)
      else streakOf data a)"
  by (simp add: record_stats_def streakOf_updatePlayerStats)

text \<open>What a handler reads as the player's streaks before it changes them.\<close>

lemma existing_maxStreak:
  "orZero (maxStreak_st (existingOr data addr (freshStats now addr (Some 0) c))) = streakOf data addr"
  by (simp add: existingOr_def getPlayerStats_def freshStats_def streakOf_def orZero_def
      split: option.splits)

lemma existing_maxStreak_join:
  "orZero (maxStreak_st (existingOr data addr (freshStats now addr None None))) = streakOf data addr"
  by (simp add: existingOr_def getPlayerStats_def freshStats_def streakOf_def orZero_def
      split: option.splits)

lemma existing_currentStreak:
  "orZero (currentStreak_st (existingOr data addr (freshStats now addr s (Some 0)))) = currentOf data addr"
  by (simp add: existingOr_def getPlayerStats_def freshStats_def currentOf_def orZero_def
      split: option.splits)

lemma unchanged_streak:
  "orZero m = x \<Longrightarrow> (case m of Some v \<Rightarrow> v | None \<Rightarrow> x) = x"
  by (simp add: orZero_def split: option.splits)

lemma updateStats_streak:
  "streakOf (snd (updateStats env addr stats name data)) a
   = (if a = addr \<and> addr \<noteq> [] then
        (case stats of None \<Rightarrow> streakOf data a
         | Some given \<Rightarrow> (case maxStreak_in given of
                            None \<Rightarrow> streakOf data a
                          | Some m \<Rightarrow> max (streakOf data a) m))
      else streakOf data a)"
  by (simp add: updateStats_def Let_def streakOf_updatePlayerStats existing_maxStreak
      split: option.splits)

lemma triggerPull_streak:
  "streakOf (snd (triggerPull env addr data)) a = streakOf data a"
  by (simp add: triggerPull_def Let_def streakOf_record_stats existing_maxStreak unchanged_streak)

lemma death_streak:
  "streakOf (snd (death env addr data)) a
   = (if a = addr \<and> addr \<noteq> [] then max (streakOf data a) (currentOf data a) else streakOf data a)"
  by (simp add: death_def Let_def streakOf_record_stats existing_maxStreak existing_currentStreak)

lemma cashout_streak:
  "streakOf (snd (cashout env addr data)) a
   = (if a = addr \<and> addr \<noteq> [] then max (streakOf data a) 7 else streakOf data a)"
  by (simp add: cashout_def Let_def streakOf_record_stats existing_maxStreak)

lemma setUsername_streak:
  "streakOf (snd (setUsername env addr name data)) a = streakOf data a"
  by (simp add: setUsername_def Let_def streakOf_record_stats existing_maxStreak unchanged_streak)

lemma existingOr_updatePrizePool [simp]:
  "existingOr (updatePrizePool now u data) addr fresh = existingOr data addr fresh"
  by (simp add: existingOr_def getPlayerStats_def)

lemma joinPrizePool_streak:
  "streakOf (snd (joinPrizePool env addr data)) a = streakOf data a"
proof -
  let ?existing = "existingOr data addr (freshStats (dateNow env) addr None None)"
  have "(case maxStreak_st ?existing of Some v \<Rightarrow> v | None \<Rightarrow> streakOf data addr)
        = streakOf data addr"
    by (rule unchanged_streak) (rule existing_maxStreak_join)
  then show ?thesis
    by (simp add: joinPrizePool_def Let_def streakOf_updatePlayerStats
        cong del: option.case_cong_weak)
qed

subsection \<open>Operations that leave the stats alone\<close>

lemma streakOf_addBalance:
  "addBalance now addr amount kind ref data = Inr data' \<Longrightarrow> streakOf data' a = streakOf data a"
  by (auto simp: addBalance_def Let_def streakOf_def split: if_splits)

lemma streakOf_deductBalance:
  "deductBalance now addr amount kind data = Inr data' \<Longrightarrow> streakOf data' a = streakOf data a"
  by (auto simp: deductBalance_def Let_def streakOf_def split: if_splits)

lemma streakOf_approvePendingPrize:
  "approvePendingPrize now addr amount data = Inr data' \<Longrightarrow> streakOf data' a = streakOf data a"
  by (auto simp: approvePendingPrize_def Let_def streakOf_def split: if_splits)

lemma withdraw_streak:
  "streakOf (snd (withdraw env addr amount data)) a = streakOf data a"
  by (auto simp: withdraw_def dest: streakOf_deductBalance split: option.splits sum.splits)

lemma approvePrize_streak:
  "streakOf (snd (approvePrize env addr amount data)) a = streakOf data a"
  by (auto simp: approvePrize_def dest: streakOf_approvePendingPrize split: option.splits sum.splits)

lemma document_onDocument:
  "document (snd (onDocument handler st)) = snd (handler (document st))"
  by (simp add: onDocument_def split: prod.splits)

lemma deposit_document:
  "document (snd (deposit env credit addr h expected currency st)) = document st
   \<or> (\<exists>v. credit addr v deposit_tx (document st)
            = Inr (document (snd (deposit env credit addr h expected currency st))))"
  by (auto simp: deposit_def Let_def split: option.splits sum.splits prod.splits)

lemma deposit_streak:
  "streakOf (document (snd (deposit env (\<lambda>a v k. addBalance now a v k None)
       addr h expected currency st))) a
   = streakOf (document st) a"
  using deposit_document [of env "\<lambda>a v k. addBalance now a v k None" addr h expected currency st]
  by (auto dest: streakOf_addBalance)

lemma distributePrizes_streak:
  "streakOf (document (snd (distributePrizes env st))) a = streakOf (document st) a"
  by (simp add: distributePrizes_def Let_def resetPrizePool_def split: sum.splits)

lemma approveDistribution_document:
  "document (snd (approveDistribution env ident user st)) = document st"
  by (simp add: approveDistribution_def Let_def split: option.splits prod.splits)

lemma POST_streak:
  "streakOf (document (snd (POST env request st))) a
   = (case request of
        UpdateStats addr (Some given) name \<Rightarrow>
          (if a = addr \<and> addr \<noteq> [] then
             (case maxStreak_in given of
                None \<Rightarrow> streakOf (document st) a
              | Some m \<Rightarrow> max (streakOf (document st) a) m)
           else streakOf (document st) a)
      | Death addr \<Rightarrow>
          (if a = addr \<and> addr \<noteq> []
           then max (streakOf (document st) a) (currentOf (document st) a)
           else streakOf (document st) a)
      | Cashout addr \<Rightarrow>
          (if a = addr \<and> addr \<noteq> [] then max (streakOf (document st) a) 7
           else streakOf (document st) a)
      | _ \<Rightarrow> streakOf (document st) a)"
proof (cases request)
  case (UpdateStats addr stats name)
  then show ?thesis
    by (simp add: document_onDocument updateStats_streak split: option.splits)
next
  case (Deposit addr h expected currency)
  then show ?thesis by (simp add: deposit_streak)
qed (simp_all add: document_onDocument triggerPull_streak death_streak cashout_streak
      setUsername_streak joinPrizePool_streak withdraw_streak approvePrize_streak
      distributePrizes_streak approveDistribution_document)

text \<open>
  Claim C10.  No exposed operation lowers the stored best streak of any address.
  For a request with an address, the stats update sets it to the maximum of the
  stored and the submitted value (and keeps it when none is submitted), a death
  sets it to the maximum of the stored value and the current streak, and a cashout
  sets it to the maximum of the stored value and 7.
\<close>

theorem maxStreak_never_lowered:
  "streakOf (document st) a \<le> streakOf (document (snd (POST env request st))) a
   \<and> (addr \<noteq> [] \<longrightarrow>
        streakOf (document (snd (POST env (UpdateStats addr (Some given) name) st))) addr
        = (case maxStreak_in given of
             None \<Rightarrow> streakOf (document st) addr
           | Some submitted \<Rightarrow> max (streakOf (document st) addr) submitted))
   \<and> (addr \<noteq> [] \<longrightarrow>
        streakOf (document (snd (POST env (Death addr) st))) addr
        = max (streakOf (document st) addr) (currentOf (document st) addr))
   \<and> (addr \<noteq> [] \<longrightarrow>
        streakOf (document (snd (POST env (Cashout addr) st))) addr
        = max (streakOf (document st) addr) 7)"
proof -
  have 1: "streakOf (document st) a \<le> streakOf (document (snd (POST env request st))) a"
    unfolding POST_streak
    by (simp split: Request.splits option.splits)
  have 2: "streakOf (document (snd (POST env (UpdateStats addr (Some given) name) st))) addr
        = (case maxStreak_in given of
             None \<Rightarrow> streakOf (document st) addr
           | Some submitted \<Rightarrow> max (streakOf (document st) addr) submitted)"
    if "addr \<noteq> []"
    using that unfolding POST_streak by simp
  have 3: "streakOf (document (snd (POST env (Death addr) st))) addr
        = max (streakOf (document st) addr) (currentOf (document st) addr)"
    if "addr \<noteq> []"
    using that unfolding POST_streak by simp
  have 4: "streakOf (document (snd (POST env (Cashout addr) st))) addr
        = max (streakOf (document st) addr) 7"
    if "addr \<noteq> []"
    using that unfolding POST_streak by simp
  from 1 2 3 4 show ?thesis by blast
qed


theorem maxStreak_never_lowered_witness:
  "''0xAb'' \<noteq> []
   \<and> streakOf (document exampleState) ''0xAb'' = 3
   \<and> streakOf (document (snd (POST exampleEnv
         (UpdateStats ''0xAb'' (Some \<lparr>triggerPulls_in = None, deaths_in = None,
            maxStreak_in = Some 2, isPaid_in = None\<rparr>) []) exampleState))) ''0xAb'' = 3
   \<and> streakOf (document (snd (POST exampleEnv (Death ''0xAb'') exampleState))) ''0xAb'' = 5
   \<and> streakOf (document (snd (POST exampleEnv (Cashout ''0xAb'') exampleState))) ''0xAb'' = 7"
proof -
  have s: "streakOf (document exampleState) ''0xAb'' = 3"
    by (simp add: streakOf_def exampleState_def exampleData_def exampleStats_def orZero_def)
  have c: "currentOf (document exampleState) ''0xAb'' = 5"
    by (simp add: currentOf_def exampleState_def exampleData_def exampleStats_def orZero_def)
  from maxStreak_never_lowered
         [of exampleState "''0xAb''" exampleEnv "Death ''0xAb''" "''0xAb''"
            "\<lparr>triggerPulls_in = None, deaths_in = None, maxStreak_in = Some 2, isPaid_in = None\<rparr>"
            "[]"]
  show ?thesis by (simp add: s c)
qed

subsection \<open>Balances are never negative\<close>

lemma playerBalances_updateLeaderboardEntry [simp]:
  "playerBalances (updateLeaderboardEntry cap mode e data) = playerBalances data"
  by (cases mode) (simp_all add: updateLeaderboardEntry_def)

lemma playerBalances_updatePrizePool [simp]:
  "playerBalances (updatePrizePool now u data) = playerBalances data"
  by (simp add: updatePrizePool_def)

lemma playerBalances_updatePlayerStats [simp]:
  "playerBalances (updatePlayerStats now addr stats data) = playerBalances data"
  by (simp add: updatePlayerStats_def)

lemma playerBalances_record_stats [simp]:
  "playerBalances (record_stats env addr stats name data) = playerBalances data"
  by (simp add: record_stats_def)

lemma balancesNonNegative_cong:
  "playerBalances data' = playerBalances data \<Longrightarrow> balancesNonNegative data' = balancesNonNegative data"
  by (simp add: balancesNonNegative_def)

lemma getPlayerBalance_nonneg:
  "balancesNonNegative data \<Longrightarrow>
     0 \<le> balance (getPlayerBalance now data addr) \<and> 0 \<le> pendingPrizes (getPlayerBalance now data addr)"
  by (auto simp: balancesNonNegative_def getPlayerBalance_def split: option.splits)

lemma balance_getPlayerBalance: "balance (getPlayerBalance now data addr) = balanceOf data addr"
  by (simp add: getPlayerBalance_def balanceOf_def split: option.splits)

lemma pending_getPlayerBalance: "pendingPrizes (getPlayerBalance now data addr) = pendingOf data addr"
  by (simp add: getPlayerBalance_def pendingOf_def split: option.splits)

lemma balancesNonNegative_store:
  "balancesNonNegative data \<Longrightarrow> 0 \<le> balance b \<Longrightarrow> 0 \<le> pendingPrizes b \<Longrightarrow>
     balancesNonNegative (data\<lparr>playerBalances := (playerBalances data)(addr \<mapsto> b)\<rparr>)"
  by (simp add: balancesNonNegative_def)

lemma addBalance_nonneg:
  assumes "balancesNonNegative data" "0 \<le> amount"
    and "addBalance now addr amount kind ref data = Inr data'"
  shows "balancesNonNegative data'"
proof -
  let ?b = "getPlayerBalance now data addr"
  from getPlayerBalance_nonneg [OF assms(1), of now addr]
  have "0 \<le> balance ?b" "0 \<le> pendingPrizes ?b" by simp_all
  with assms show ?thesis
    by (auto simp: addBalance_def Let_def split: if_splits intro!: balancesNonNegative_store)
qed

lemma deductBalance_nonneg:
  assumes "balancesNonNegative data"
    and "deductBalance now addr amount kind data = Inr data'"
  shows "balancesNonNegative data'"
proof -
  let ?b = "getPlayerBalance now data addr"
  from getPlayerBalance_nonneg [OF assms(1), of now addr]
  have "0 \<le> balance ?b" "0 \<le> pendingPrizes ?b" by simp_all
  with assms show ?thesis
    by (auto simp: deductBalance_def Let_def split: if_splits intro!: balancesNonNegative_store)
qed

lemma approvePendingPrize_nonneg:
  assumes "balancesNonNegative data" "0 \<le> amount"
    and "approvePendingPrize now addr amount data = Inr data'"
  shows "balancesNonNegative data'"
proof -
  let ?b = "getPlayerBalance now data addr"
  from getPlayerBalance_nonneg [OF assms(1), of now addr]
  have "0 \<le> balance ?b" "0 \<le> pendingPrizes ?b" by simp_all
  with assms show ?thesis
    by (auto simp: approvePendingPrize_def Let_def split: if_splits intro!: balancesNonNegative_store)
qed

lemma addPendingPrize_nonneg:
  assumes "balancesNonNegative data" "0 \<le> amount"
  shows "balancesNonNegative (addPendingPrize now addr amount data)"
proof -
  let ?b = "getPlayerBalance now data addr"
  from getPlayerBalance_nonneg [OF assms(1), of now addr]
  have "0 \<le> balance ?b" "0 \<le> pendingPrizes ?b" by simp_all
  with assms show ?thesis
    by (auto simp: addPendingPrize_def Let_def intro!: balancesNonNegative_store)
qed

lemma deductBalance_insufficient:
  "balanceOf data addr < amount \<Longrightarrow> deductBalance now addr amount kind data = Inl InsufficientBalance"
  by (simp add: deductBalance_def balance_getPlayerBalance)

lemma approvePendingPrize_insufficient:
  "pendingOf data addr < amount \<Longrightarrow> approvePendingPrize now addr amount data = Inl InsufficientPending"
  by (simp add: approvePendingPrize_def pending_getPlayerBalance)

lemma verifyTransfer_nonneg:
  "verifyTransfer env addr h currency receipt = Inr (t, u) \<Longrightarrow> 0 \<le> u"
  by (auto simp: verifyTransfer_def Let_def ETH_PRICE_USD_def split: if_splits option.splits)

lemma stats_handlers_balances:
  "playerBalances (snd (updateStats env addr stats name data)) = playerBalances data"
  "playerBalances (snd (triggerPull env addr data)) = playerBalances data"
  "playerBalances (snd (death env addr data)) = playerBalances data"
  "playerBalances (snd (cashout env addr data)) = playerBalances data"
  "playerBalances (snd (setUsername env addr name data)) = playerBalances data"
  "playerBalances (snd (joinPrizePool env addr data)) = playerBalances data"
  by (simp_all add: updateStats_def triggerPull_def death_def cashout_def setUsername_def
      joinPrizePool_def Let_def split: option.splits)

lemma withdraw_nonneg:
  "balancesNonNegative data \<Longrightarrow> balancesNonNegative (snd (withdraw env addr amount data))"
  by (auto simp: withdraw_def dest: deductBalance_nonneg split: option.splits sum.splits)

lemma approvePrize_nonneg:
  "balancesNonNegative data \<Longrightarrow> balancesNonNegative (snd (approvePrize env addr amount data))"
proof (cases "approvePrize env addr amount data")
  case (Pair r data')
  assume n: "balancesNonNegative data"
  show ?thesis
  proof (cases "data' = data")
    case True
    with Pair n show ?thesis by simp
  next
    case False
    with Pair obtain a where "amount = Some a" "0 < a"
      "approvePendingPrize (dateNow env) addr a data = Inr data'"
      by (auto simp: approvePrize_def not_le split: option.splits sum.splits if_splits)
    with approvePendingPrize_nonneg [OF n, of a "dateNow env" addr data'] Pair
    show ?thesis by simp
  qed
qed

lemma deposit_nonneg:
  assumes "balancesNonNegative (document st)"
  shows "balancesNonNegative (document (snd (deposit env
           (\<lambda>a v k. addBalance now a v k ref) addr h expected currency st)))"
  using assms
  by (auto simp: deposit_def Let_def dest: verifyTransfer_nonneg addBalance_nonneg
      split: option.splits sum.splits prod.splits)

lemma POST_nonneg:
  assumes "balancesNonNegative (document st)"
  shows "balancesNonNegative (document (snd (POST env request st)))"
proof (cases request)
  case (Deposit addr h expected currency)
  with assms show ?thesis by (simp add: deposit_nonneg)
next
  case (Withdraw addr amount)
  with assms show ?thesis by (simp add: document_onDocument withdraw_nonneg)
next
  case (ApprovePrize addr amount)
  with assms show ?thesis by (simp add: document_onDocument approvePrize_nonneg)
next
  case DistributePrizes
  with assms show ?thesis
    by (simp add: distributePrizes_def Let_def resetPrizePool_def
        balancesNonNegative_cong [of "updatePrizePool _ _ _"] split: sum.splits)
next
  case (ApproveDistribution ident user)
  with assms show ?thesis
    by (simp add: approveDistribution_def Let_def split: option.splits prod.splits)
qed (use assms in \<open>simp_all add: document_onDocument
      balancesNonNegative_cong [OF stats_handlers_balances(1)]
      balancesNonNegative_cong [OF stats_handlers_balances(2)]
      balancesNonNegative_cong [OF stats_handlers_balances(3)]
      balancesNonNegative_cong [OF stats_handlers_balances(4)]
      balancesNonNegative_cong [OF stats_handlers_balances(5)]
      balancesNonNegative_cong [OF stats_handlers_balances(6)]\<close>)

lemma withdraw_rejected:
  "balanceOf (document st) addr < amount \<Longrightarrow>
     POST env (Withdraw addr (Some amount)) st
       = (Inl (if addr = [] \<or> amount \<le> 0 then InvalidWithdrawalData else InsufficientBalance), st)"
  by (simp add: onDocument_def withdraw_def deductBalance_insufficient)

lemma approvePrize_rejected:
  "pendingOf (document st) addr < amount \<Longrightarrow>
     POST env (ApprovePrize addr (Some amount)) st
       = (Inl (if addr = [] \<or> amount \<le> 0 then InvalidPrizeApprovalData else InsufficientPending), st)"
  by (simp add: onDocument_def approvePrize_def approvePendingPrize_insufficient)


text \<open>
  Claim C3.  No balance and no pending prize is negative in the initial document,
  and if none is negative before an exposed operation, none is after it.  A withdrawal of more than the balance is
  answered with \<open>InsufficientBalance\<close> and an approval of more than the pending
  prizes with \<open>InsufficientPending\<close>, the state being left as it was; the ledger's
  debit refuses an entry fee above the balance in the same way, and a debit or a
  pending prize that goes through keeps the invariant.
\<close>

theorem balances_never_negative:
  "balancesNonNegative (initialData now)
   \<and> (balancesNonNegative (document st) \<longrightarrow>
      balancesNonNegative (document (snd (POST env request st))))
   \<and> (balanceOf (document st) addr < amount \<and> 0 < amount \<and> addr \<noteq> [] \<longrightarrow>
        POST env (Withdraw addr (Some amount)) st = (Inl InsufficientBalance, st))
   \<and> (pendingOf (document st) addr < amount \<and> 0 < amount \<and> addr \<noteq> [] \<longrightarrow>
        POST env (ApprovePrize addr (Some amount)) st = (Inl InsufficientPending, st))
   \<and> (balanceOf data addr < amount \<longrightarrow>
        deductBalance now addr amount entry_fee_tx data = Inl InsufficientBalance)
   \<and> (balancesNonNegative data \<and> deductBalance now addr amount kind data = Inr data' \<longrightarrow>
        balancesNonNegative data')
   \<and> (balancesNonNegative data \<and> 0 < amount \<longrightarrow>
        balancesNonNegative (addPendingPrize now addr amount data))"
proof -
  have 1: "balancesNonNegative (document (snd (POST env request st)))"
    if "balancesNonNegative (document st)"
    using that by (rule POST_nonneg)
  have 2: "POST env (Withdraw addr (Some amount)) st = (Inl InsufficientBalance, st)"
    if "balanceOf (document st) addr < amount" "0 < amount" "addr \<noteq> []"
    using withdraw_rejected [OF that(1), of env] that(2,3) by simp
  have 3: "POST env (ApprovePrize addr (Some amount)) st = (Inl InsufficientPending, st)"
    if "pendingOf (document st) addr < amount" "0 < amount" "addr \<noteq> []"
    using approvePrize_rejected [OF that(1), of env] that(2,3) by simp
  have 4: "deductBalance now addr amount entry_fee_tx data = Inl InsufficientBalance"
    if "balanceOf data addr < amount"
    using that by (rule deductBalance_insufficient)
  have 5: "balancesNonNegative data'"
    if "balancesNonNegative data" "deductBalance now addr amount kind data = Inr data'"
    using that by (rule deductBalance_nonneg)
  have 6: "balancesNonNegative (addPendingPrize now addr amount data)"
    if "balancesNonNegative data" "0 < amount"
    using that by (simp add: addPendingPrize_nonneg)
  have 0: "balancesNonNegative (initialData now)"
    by (simp add: balancesNonNegative_def initialData_def)
  from 0 1 2 3 4 5 6 show ?thesis by blast
qed

lemma exampleState_nonneg: "balancesNonNegative (document exampleState)"
  by (simp add: balancesNonNegative_def exampleState_def exampleData_def exampleBalance_def)

theorem balances_never_negative_witness:
  "balancesNonNegative (document exampleState)
   \<and> balanceOf (document exampleState) ''0xAb'' = 10
   \<and> pendingOf (document exampleState) ''0xAb'' = 4
   \<and> balancesNonNegative (document (snd (POST exampleEnv (Withdraw ''0xAb'' (Some 3)) exampleState)))
   \<and> POST exampleEnv (Withdraw ''0xAb'' (Some 11)) exampleState = (Inl InsufficientBalance, exampleState)
   \<and> POST exampleEnv (ApprovePrize ''0xAb'' (Some 5)) exampleState = (Inl InsufficientPending, exampleState)
   \<and> deductBalance 1000 ''0xAb'' 11 entry_fee_tx (document exampleState) = Inl InsufficientBalance
   \<and> balancesNonNegative (addPendingPrize 1000 ''0xAb'' 11 (document exampleState))"
proof -
  have b: "balanceOf (document exampleState) ''0xAb'' = 10"
    by (simp add: balanceOf_def exampleState_def exampleData_def exampleBalance_def)
  have p: "pendingOf (document exampleState) ''0xAb'' = 4"
    by (simp add: pendingOf_def exampleState_def exampleData_def exampleBalance_def)
  note n = exampleState_nonneg
  from balances_never_negative
         [of 1000 exampleState exampleEnv "Withdraw ''0xAb'' (Some 3)" "''0xAb''" 11
            "document exampleState" withdrawal_tx "document exampleState"] n b p
  have w: "balancesNonNegative (document (snd (POST exampleEnv (Withdraw ''0xAb'' (Some 3)) exampleState)))"
    "POST exampleEnv (Withdraw ''0xAb'' (Some 11)) exampleState = (Inl InsufficientBalance, exampleState)"
    "deductBalance 1000 ''0xAb'' 11 entry_fee_tx (document exampleState) = Inl InsufficientBalance"
    "balancesNonNegative (addPendingPrize 1000 ''0xAb'' 11 (document exampleState))"
    by simp_all
  from balances_never_negative
         [of 1000 exampleState exampleEnv "Withdraw ''0xAb'' (Some 3)" "''0xAb''" 5
            "document exampleState" withdrawal_tx "document exampleState"] n b p
  have a: "POST exampleEnv (ApprovePrize ''0xAb'' (Some 5)) exampleState = (Inl InsufficientPending, exampleState)"
    by simp
  from n b p w a show ?thesis by simp
qed

subsection \<open>Deposits\<close>

lemma verifyTransfer_unfold:
  "verifyTransfer env addr h currency receipt =
     (if currency \<noteq> ''ETH'' \<and> map_option toLowerCase (to_r receipt) \<noteq> Some (toLowerCase (USDC_ADDRESS env))
      then Inl NotAUSDCTransfer
      else
        case readTransfer env h currency receipt of
          None \<Rightarrow> Inl TransactionNotFound
        | Some (transferFrom, transferTo, transferAmount) \<Rightarrow>
            if \<not> sameAddressCI transferFrom addr then Inl SenderMismatch
            else if Some (toLowerCase transferTo) \<noteq> map_option toLowerCase (depositWallet env currency)
              then Inl RecipientMismatch
            else Inr (transferAmount, usdValueOf currency transferAmount))"
proof (cases "currency = ''ETH''")
  case True
  then show ?thesis
    by (cases "getTransaction env h")
       (simp_all add: verifyTransfer_def readTransfer_def depositWallet_def usdValueOf_def
          sameAddressCI_def Let_def)
next
  case False
  then show ?thesis
    by (cases "findTransfer (USDC_ADDRESS env) (logs_r receipt)")
       (simp_all add: verifyTransfer_def readTransfer_def depositWallet_def usdValueOf_def
          sameAddressCI_def Let_def)
qed

lemma deposit_unfold:
  "deposit env credit addr h expected currency st =
     (if addr = [] \<or> h = [] then (Inl MissingTransactionHash, st)
      else case getTransactionReceipt env h of
        None \<Rightarrow> (Inl TransactionNotFound, st)
      | Some receipt \<Rightarrow>
          if status_r receipt \<noteq> success then (Inl TransactionReverted, st)
          else case verifyTransfer env addr h currency receipt of
            Inl e \<Rightarrow> (Inl e, st)
          | Inr (transferAmount, usdValue) \<Rightarrow>
              (case credit addr usdValue deposit_tx (document st) of
                 Inl e \<Rightarrow> (Inl e, st\<lparr>console := console st @ amountWarning expected transferAmount\<rparr>)
               | Inr data' \<Rightarrow>
                   (Inr (DepositResponse (getPlayerBalance (dateNow env) data' addr)
                           transferAmount currency usdValue h),
                    \<lparr>document = data', distributionLogs = distributionLogs st,
                     console = console st @ amountWarning expected transferAmount\<rparr>)))"
  by (simp add: deposit_def Let_def split: option.splits sum.splits prod.splits)

lemma deposit_rejected:
  assumes "getTransactionReceipt env h = Some receipt"
    and "readTransfer env h currency receipt = Some (transferFrom, transferTo, transferAmount)"
    and "\<not> sameAddressCI transferFrom addr
         \<or> Some (toLowerCase transferTo) \<noteq> map_option toLowerCase (depositWallet env currency)"
  shows "\<exists>e. deposit env credit addr h expected currency st = (Inl e, st)"
  using assms by (auto simp: deposit_unfold verifyTransfer_unfold)

lemma deposit_sender_mismatch:
  assumes "addr \<noteq> []" "h \<noteq> []" "getTransactionReceipt env h = Some receipt"
    and "status_r receipt = success"
    and "currency = ''ETH'' \<or> map_option toLowerCase (to_r receipt) = Some (toLowerCase (USDC_ADDRESS env))"
    and "readTransfer env h currency receipt = Some (transferFrom, transferTo, transferAmount)"
    and "\<not> sameAddressCI transferFrom addr"
  shows "deposit env credit addr h expected currency st = (Inl SenderMismatch, st)"
  using assms by (auto simp: deposit_unfold verifyTransfer_unfold)

lemma deposit_recipient_mismatch:
  assumes "addr \<noteq> []" "h \<noteq> []" "getTransactionReceipt env h = Some receipt"
    and "status_r receipt = success"
    and "currency = ''ETH'' \<or> map_option toLowerCase (to_r receipt) = Some (toLowerCase (USDC_ADDRESS env))"
    and "readTransfer env h currency receipt = Some (transferFrom, transferTo, transferAmount)"
    and "sameAddressCI transferFrom addr"
    and "Some (toLowerCase transferTo) \<noteq> map_option toLowerCase (depositWallet env currency)"
  shows "deposit env credit addr h expected currency st = (Inl RecipientMismatch, st)"
  using assms by (auto simp: deposit_unfold verifyTransfer_unfold)


text \<open>
  Claim C6.  Let the receipt of the claimed transaction exist and let the handler
  read the transfer \<open>(transferFrom, transferTo, transferAmount)\<close> from the chain.
  If the sender differs from the claimed address (letter case aside), the deposit
  fails and the state is unchanged, so nothing is credited; when the request is
  well-formed and the earlier checks pass, the failure is \<open>SenderMismatch\<close>.  If the
  recipient differs from the configured deposit address (letter case aside), the
  deposit fails with the state unchanged; when the earlier checks pass and the
  sender matches, the failure is \<open>RecipientMismatch\<close>.  This holds for every
  expected amount, every transferred amount and every ledger.
\<close>

theorem deposit_rejects_wrong_sender_or_recipient:
  "getTransactionReceipt env h = Some receipt
   \<and> readTransfer env h currency receipt = Some (transferFrom, transferTo, transferAmount)
   \<longrightarrow>
     (\<not> sameAddressCI transferFrom addr \<longrightarrow>
        (\<exists>e. deposit env credit addr h expected currency st = (Inl e, st))
        \<and> (addr \<noteq> [] \<and> h \<noteq> [] \<and> status_r receipt = success
            \<and> (currency = ''ETH''
                \<or> map_option toLowerCase (to_r receipt) = Some (toLowerCase (USDC_ADDRESS env)))
            \<longrightarrow> deposit env credit addr h expected currency st = (Inl SenderMismatch, st)))
     \<and> (Some (toLowerCase transferTo) \<noteq> map_option toLowerCase (depositWallet env currency) \<longrightarrow>
        (\<exists>e. deposit env credit addr h expected currency st = (Inl e, st))
        \<and> (addr \<noteq> [] \<and> h \<noteq> [] \<and> status_r receipt = success
            \<and> (currency = ''ETH''
                \<or> map_option toLowerCase (to_r receipt) = Some (toLowerCase (USDC_ADDRESS env)))
            \<and> sameAddressCI transferFrom addr
            \<longrightarrow> deposit env credit addr h expected currency st = (Inl RecipientMismatch, st)))"
  using deposit_rejected [of env h receipt currency transferFrom transferTo transferAmount addr credit expected st]
    deposit_sender_mismatch [of addr h env receipt currency transferFrom transferTo transferAmount credit expected st]
    deposit_recipient_mismatch [of addr h env receipt currency transferFrom transferTo transferAmount credit expected st]
  by blast

lemmas chain_defs = exampleEnv_def exampleReceipt_def readTransfer_def depositWallet_def
  sameAddressCI_def toLowerCase_def toLowerCase_char_def upper_lower_table_def
  ETH_DEPOSIT_WALLET_def

theorem deposit_rejects_wrong_sender_or_recipient_witness:
  "getTransactionReceipt exampleEnv ''0xt1'' = Some exampleReceipt
   \<and> readTransfer exampleEnv ''0xt1'' ''USDC'' exampleReceipt = Some (''0xab'', ''0xDE90'', 10)
   \<and> \<not> sameAddressCI ''0xab'' ''0xEve''
   \<and> POST exampleEnv (Deposit ''0xEve'' ''0xt1'' (Some 10) ''USDC'') exampleState
       = (Inl SenderMismatch, exampleState)
   \<and> getTransactionReceipt (exampleEnv\<lparr>DEPOSIT_WALLET := Some ''0xde91''\<rparr>) ''0xt1'' = Some exampleReceipt
   \<and> readTransfer (exampleEnv\<lparr>DEPOSIT_WALLET := Some ''0xde91''\<rparr>) ''0xt1'' ''USDC'' exampleReceipt
       = Some (''0xab'', ''0xDE90'', 10)
   \<and> sameAddressCI ''0xab'' ''0xAb''
   \<and> Some (toLowerCase ''0xDE90'')
       \<noteq> map_option toLowerCase (depositWallet (exampleEnv\<lparr>DEPOSIT_WALLET := Some ''0xde91''\<rparr>) ''USDC'')
   \<and> POST (exampleEnv\<lparr>DEPOSIT_WALLET := Some ''0xde91''\<rparr>)
        (Deposit ''0xAb'' ''0xt1'' (Some 10) ''USDC'') exampleState
       = (Inl RecipientMismatch, exampleState)"
proof -
  let ?env' = "exampleEnv\<lparr>DEPOSIT_WALLET := Some ''0xde91''\<rparr>"
  have r: "getTransactionReceipt exampleEnv ''0xt1'' = Some exampleReceipt"
    "getTransactionReceipt ?env' ''0xt1'' = Some exampleReceipt"
    by (simp_all add: exampleEnv_def)
  have t: "readTransfer exampleEnv ''0xt1'' ''USDC'' exampleReceipt = Some (''0xab'', ''0xDE90'', 10)"
    "readTransfer ?env' ''0xt1'' ''USDC'' exampleReceipt = Some (''0xab'', ''0xDE90'', 10)"
    by (simp_all add: chain_defs)
  have s: "\<not> sameAddressCI ''0xab'' ''0xEve''" "sameAddressCI ''0xab'' ''0xAb''"
    by (simp_all add: chain_defs)
  have w: "Some (toLowerCase ''0xDE90'') \<noteq> map_option toLowerCase (depositWallet ?env' ''USDC'')"
    by (simp add: chain_defs)
  have u: "status_r exampleReceipt = success"
    "map_option toLowerCase (to_r exampleReceipt) = Some (toLowerCase (USDC_ADDRESS exampleEnv))"
    "map_option toLowerCase (to_r exampleReceipt) = Some (toLowerCase (USDC_ADDRESS ?env'))"
    by (simp_all add: chain_defs)
  from deposit_rejects_wrong_sender_or_recipient
         [of exampleEnv "''0xt1''" exampleReceipt "''USDC''" "''0xab''" "''0xDE90''" 10 "''0xEve''"
            "\<lambda>a v k. addBalance (dateNow exampleEnv) a v k None" "Some 10" exampleState]
       r t s u
  have 1: "POST exampleEnv (Deposit ''0xEve'' ''0xt1'' (Some 10) ''USDC'') exampleState
       = (Inl SenderMismatch, exampleState)"
    by simp
  from deposit_rejects_wrong_sender_or_recipient
         [of ?env' "''0xt1''" exampleReceipt "''USDC''" "''0xab''" "''0xDE90''" 10 "''0xAb''"
            "\<lambda>a v k. addBalance (dateNow ?env') a v k None" "Some 10" exampleState]
       r t s u w
  have 2: "POST ?env' (Deposit ''0xAb'' ''0xt1'' (Some 10) ''USDC'') exampleState
       = (Inl RecipientMismatch, exampleState)"
    by simp
  from r t s w 1 2 show ?thesis by simp
qed


lemma addBalance_no_ref:
  "addBalance now addr v kind None data
   = Inr (data\<lparr>playerBalances := (playerBalances data)(addr \<mapsto>
       (getPlayerBalance now data addr)
         \<lparr>balance := balance (getPlayerBalance now data addr) + v,
          totalDeposited := (if kind = deposit_tx
                             then totalDeposited (getPlayerBalance now data addr) + v
                             else totalDeposited (getPlayerBalance now data addr)),
          transactions := transactions (getPlayerBalance now data addr) @
            [\<lparr>type_tx = kind, amount_tx = v, timestamp_tx = now, transactionHash_tx = None\<rparr>]\<rparr>)\<rparr>)"
  by (simp add: addBalance_def Let_def)

lemma balanceOf_addBalance_no_ref:
  "addBalance now addr v kind None data = Inr data' \<Longrightarrow> balanceOf data' addr = balanceOf data addr + v"
  by (auto simp: addBalance_no_ref balanceOf_def getPlayerBalance_def split: option.splits)

lemma verified_readTransfer:
  assumes "verifyTransfer env addr h currency receipt = Inr (transferAmount, usdValue)"
  shows "(\<exists>transferFrom transferTo.
            readTransfer env h currency receipt = Some (transferFrom, transferTo, transferAmount)
            \<and> sameAddressCI transferFrom addr
            \<and> Some (toLowerCase transferTo) = map_option toLowerCase (depositWallet env currency))
         \<and> usdValue = usdValueOf currency transferAmount"
  using assms unfolding verifyTransfer_unfold
  by (auto split: if_splits option.splits prod.splits)

lemma POST_deposit_verified:
  assumes "addr \<noteq> []" "h \<noteq> []" "getTransactionReceipt env h = Some receipt"
    and "status_r receipt = success"
    and "verifyTransfer env addr h currency receipt = Inr (transferAmount, usdValue)"
  shows "\<exists>data'. addBalance (dateNow env) addr usdValue deposit_tx None (document st) = Inr data'
     \<and> POST env (Deposit addr h expected currency) st
       = (Inr (DepositResponse (getPlayerBalance (dateNow env) data' addr)
                 transferAmount currency usdValue h),
          \<lparr>document = data', distributionLogs = distributionLogs st,
           console = console st @ amountWarning expected transferAmount\<rparr>)"
  using assms by (simp add: deposit_unfold addBalance_no_ref)

text \<open>
  Claim C7.  When a deposit passes verification with on-chain amount
  \<open>transferAmount\<close>, the handler credits \<open>usdValue\<close>, the on-chain amount converted
  to the unit of account, whatever amount the client expected: the ledger is called
  with \<open>usdValue\<close>, the request succeeds, the balance grows by exactly \<open>usdValue\<close>,
  and an expected amount that differs by more than the tolerance only adds a warning
  line to the console.
\<close>

theorem deposit_credits_verified_amount:
  "addr \<noteq> [] \<and> h \<noteq> [] \<and> getTransactionReceipt env h = Some receipt
   \<and> status_r receipt = success
   \<and> verifyTransfer env addr h currency receipt = Inr (transferAmount, usdValue)
   \<longrightarrow>
     (\<exists>transferFrom transferTo.
         readTransfer env h currency receipt = Some (transferFrom, transferTo, transferAmount))
     \<and> usdValue = usdValueOf currency transferAmount
     \<and> deposit env credit addr h expected currency st =
         (case credit addr usdValue deposit_tx (document st) of
            Inl e \<Rightarrow> (Inl e, st\<lparr>console := console st @ amountWarning expected transferAmount\<rparr>)
          | Inr data' \<Rightarrow>
              (Inr (DepositResponse (getPlayerBalance (dateNow env) data' addr)
                      transferAmount currency usdValue h),
               \<lparr>document = data', distributionLogs = distributionLogs st,
                console = console st @ amountWarning expected transferAmount\<rparr>))
     \<and> (\<exists>response. fst (POST env (Deposit addr h expected currency) st) = Inr response)
     \<and> balanceOf (document (snd (POST env (Deposit addr h expected currency) st))) addr
         = balanceOf (document st) addr + usdValue
     \<and> console (snd (POST env (Deposit addr h expected currency) st))
         = console st @ (case expected of
                           None \<Rightarrow> []
                         | Some e \<Rightarrow> if e \<noteq> 0 \<and> \<bar>transferAmount - e\<bar> > 1 / 10000
                                     then [AmountMismatch e transferAmount] else [])"
proof (intro impI, elim conjE)
  assume a: "addr \<noteq> []" "h \<noteq> []" "getTransactionReceipt env h = Some receipt"
    "status_r receipt = success"
    "verifyTransfer env addr h currency receipt = Inr (transferAmount, usdValue)"
  from verified_readTransfer [OF a(5)]
  have 1: "\<exists>transferFrom transferTo.
         readTransfer env h currency receipt = Some (transferFrom, transferTo, transferAmount)"
    and 2: "usdValue = usdValueOf currency transferAmount"
    by blast+
  have 3: "deposit env credit addr h expected currency st =
         (case credit addr usdValue deposit_tx (document st) of
            Inl e \<Rightarrow> (Inl e, st\<lparr>console := console st @ amountWarning expected transferAmount\<rparr>)
          | Inr data' \<Rightarrow>
              (Inr (DepositResponse (getPlayerBalance (dateNow env) data' addr)
                      transferAmount currency usdValue h),
               \<lparr>document = data', distributionLogs = distributionLogs st,
                console = console st @ amountWarning expected transferAmount\<rparr>))"
    using a by (simp add: deposit_unfold)
  from POST_deposit_verified [OF a, where expected = expected and st = st] obtain data' where
    d: "addBalance (dateNow env) addr usdValue deposit_tx None (document st) = Inr data'"
    and p: "POST env (Deposit addr h expected currency) st
       = (Inr (DepositResponse (getPlayerBalance (dateNow env) data' addr)
                 transferAmount currency usdValue h),
          \<lparr>document = data', distributionLogs = distributionLogs st,
           console = console st @ amountWarning expected transferAmount\<rparr>)"
    by blast
  have 4: "\<exists>response. fst (POST env (Deposit addr h expected currency) st) = Inr response"
    by (simp only: p fst_conv) blast
  have 5: "balanceOf (document (snd (POST env (Deposit addr h expected currency) st))) addr
         = balanceOf (document st) addr + usdValue"
    using balanceOf_addBalance_no_ref [OF d] by (simp only: p snd_conv) simp
  have 6: "console (snd (POST env (Deposit addr h expected currency) st))
         = console st @ (case expected of
                           None \<Rightarrow> []
                         | Some e \<Rightarrow> if e \<noteq> 0 \<and> \<bar>transferAmount - e\<bar> > 1 / 10000
                                     then [AmountMismatch e transferAmount] else [])"
    by (simp only: p snd_conv) (simp add: amountWarning_def)
  from 1 2 3 4 5 6 show "(\<exists>transferFrom transferTo.
         readTransfer env h currency receipt = Some (transferFrom, transferTo, transferAmount))
     \<and> usdValue = usdValueOf currency transferAmount
     \<and> deposit env credit addr h expected currency st =
         (case credit addr usdValue deposit_tx (document st) of
            Inl e \<Rightarrow> (Inl e, st\<lparr>console := console st @ amountWarning expected transferAmount\<rparr>)
          | Inr data' \<Rightarrow>
              (Inr (DepositResponse (getPlayerBalance (dateNow env) data' addr)
                      transferAmount currency usdValue h),
               \<lparr>document = data', distributionLogs = distributionLogs st,
                console = console st @ amountWarning expected transferAmount\<rparr>))
     \<and> (\<exists>response. fst (POST env (Deposit addr h expected currency) st) = Inr response)
     \<and> balanceOf (document (snd (POST env (Deposit addr h expected currency) st))) addr
         = balanceOf (document st) addr + usdValue
     \<and> console (snd (POST env (Deposit addr h expected currency) st))
         = console st @ (case expected of
                           None \<Rightarrow> []
                         | Some e \<Rightarrow> if e \<noteq> 0 \<and> \<bar>transferAmount - e\<bar> > 1 / 10000
                                     then [AmountMismatch e transferAmount] else [])"
    by (intro conjI)
qed

lemma example_verified:
  "verifyTransfer exampleEnv ''0xAb'' ''0xt1'' ''USDC'' exampleReceipt = Inr (10, 10)"
  "verifyTransfer exampleEnv ''0xAb'' ''0xt2'' ''ETH'' \<lparr>status_r = success, to_r = None, logs_r = []\<rparr>
     = Inr (1 / 500, 6)"
  by (simp_all add: verifyTransfer_def Let_def ETH_PRICE_USD_def chain_defs)

lemma example_balance: "balanceOf (document exampleState) ''0xAb'' = 10"
  by (simp add: balanceOf_def exampleState_def exampleData_def exampleBalance_def)

theorem deposit_credits_verified_amount_witness:
  "''0xAb'' \<noteq> [] \<and> ''0xt1'' \<noteq> []
   \<and> getTransactionReceipt exampleEnv ''0xt1'' = Some exampleReceipt
   \<and> status_r exampleReceipt = success
   \<and> verifyTransfer exampleEnv ''0xAb'' ''0xt1'' ''USDC'' exampleReceipt = Inr (10, 10)
   \<and> balanceOf (document exampleState) ''0xAb'' = 10
   \<and> balanceOf (document (snd (POST exampleEnv (Deposit ''0xAb'' ''0xt1'' (Some 500) ''USDC'')
        exampleState))) ''0xAb'' = 20
   \<and> console (snd (POST exampleEnv (Deposit ''0xAb'' ''0xt1'' (Some 500) ''USDC'') exampleState))
       = [AmountMismatch 500 10]"
proof -
  have r: "getTransactionReceipt exampleEnv ''0xt1'' = Some exampleReceipt"
    "status_r exampleReceipt = success"
    by (simp_all add: exampleEnv_def exampleReceipt_def)
  have c: "console exampleState = []" by (simp add: exampleState_def)
  from deposit_credits_verified_amount
         [of "''0xAb''" "''0xt1''" exampleEnv exampleReceipt "''USDC''" 10 10
            "\<lambda>a v k. addBalance (dateNow exampleEnv) a v k None" "Some 500" exampleState]
       r example_verified(1) example_balance c
  show ?thesis by (simp del: POST.simps)
qed

text \<open>
  Claim C1, as the code has it.  The handler does not hand the transaction reference
  to the ledger, so every invocation that passes verification credits the verified
  amount: two invocations with the same address and transaction reference both
  succeed, and the balance grows by twice the verified amount.
\<close>

theorem deposit_twice_credits_twice:
  "addr \<noteq> [] \<and> h \<noteq> [] \<and> getTransactionReceipt env h = Some receipt
   \<and> status_r receipt = success
   \<and> verifyTransfer env addr h currency receipt = Inr (transferAmount, usdValue)
   \<longrightarrow>
     (\<exists>response. fst (POST env (Deposit addr h expected currency) st) = Inr response)
     \<and> (\<exists>response. fst (POST env (Deposit addr h expected currency)
                          (snd (POST env (Deposit addr h expected currency) st))) = Inr response)
     \<and> balanceOf (document (snd (POST env (Deposit addr h expected currency)
                   (snd (POST env (Deposit addr h expected currency) st))))) addr
         = balanceOf (document st) addr + 2 * usdValue"
proof (intro impI, elim conjE)
  assume a: "addr \<noteq> []" "h \<noteq> []" "getTransactionReceipt env h = Some receipt"
    "status_r receipt = success"
    "verifyTransfer env addr h currency receipt = Inr (transferAmount, usdValue)"
  let ?st1 = "snd (POST env (Deposit addr h expected currency) st)"
  let ?st2 = "snd (POST env (Deposit addr h expected currency) ?st1)"
  from POST_deposit_verified [OF a, where expected = expected and st = st] obtain d1 where
    d1: "addBalance (dateNow env) addr usdValue deposit_tx None (document st) = Inr d1"
    and p1: "POST env (Deposit addr h expected currency) st
       = (Inr (DepositResponse (getPlayerBalance (dateNow env) d1 addr)
                 transferAmount currency usdValue h),
          \<lparr>document = d1, distributionLogs = distributionLogs st,
           console = console st @ amountWarning expected transferAmount\<rparr>)"
    by blast
  from POST_deposit_verified [OF a, where expected = expected and st = ?st1] obtain d2 where
    d2: "addBalance (dateNow env) addr usdValue deposit_tx None (document ?st1) = Inr d2"
    and p2: "POST env (Deposit addr h expected currency) ?st1
       = (Inr (DepositResponse (getPlayerBalance (dateNow env) d2 addr)
                 transferAmount currency usdValue h),
          \<lparr>document = d2, distributionLogs = distributionLogs ?st1,
           console = console ?st1 @ amountWarning expected transferAmount\<rparr>)"
    by blast
  have s1: "document ?st1 = d1" by (simp only: p1 snd_conv) simp
  have s2: "document ?st2 = d2" by (simp only: p2 snd_conv) simp
  have b1: "balanceOf d1 addr = balanceOf (document st) addr + usdValue"
    using balanceOf_addBalance_no_ref [OF d1] .
  have b2: "balanceOf d2 addr = balanceOf d1 addr + usdValue"
    using balanceOf_addBalance_no_ref [OF d2] by (simp only: s1)
  have 1: "\<exists>response. fst (POST env (Deposit addr h expected currency) st) = Inr response"
    by (simp only: p1 fst_conv) blast
  have 2: "\<exists>response. fst (POST env (Deposit addr h expected currency) ?st1) = Inr response"
    by (simp only: p2 fst_conv) blast
  have 3: "balanceOf (document ?st2) addr = balanceOf (document st) addr + 2 * usdValue"
    using s2 b2 b1 by (simp del: POST.simps)
  from 1 2 3 show "(\<exists>response. fst (POST env (Deposit addr h expected currency) st) = Inr response)
     \<and> (\<exists>response. fst (POST env (Deposit addr h expected currency) ?st1) = Inr response)
     \<and> balanceOf (document ?st2) addr = balanceOf (document st) addr + 2 * usdValue"
    by (intro conjI)
qed

theorem deposit_twice_credits_twice_witness:
  "''0xAb'' \<noteq> [] \<and> ''0xt2'' \<noteq> []
   \<and> getTransactionReceipt exampleEnv ''0xt2'' = Some \<lparr>status_r = success, to_r = None, logs_r = []\<rparr>
   \<and> verifyTransfer exampleEnv ''0xAb'' ''0xt2'' ''ETH'' \<lparr>status_r = success, to_r = None, logs_r = []\<rparr>
       = Inr (1 / 500, 6)
   \<and> balanceOf (document exampleState) ''0xAb'' = 10
   \<and> balanceOf (document (snd (POST exampleEnv (Deposit ''0xAb'' ''0xt2'' None ''ETH'')
        (snd (POST exampleEnv (Deposit ''0xAb'' ''0xt2'' None ''ETH'') exampleState))))) ''0xAb'' = 22"
proof -
  have r: "getTransactionReceipt exampleEnv ''0xt2'' = Some \<lparr>status_r = success, to_r = None, logs_r = []\<rparr>"
    by (simp add: exampleEnv_def)
  from deposit_twice_credits_twice
         [of "''0xAb''" "''0xt2''" exampleEnv "\<lparr>status_r = success, to_r = None, logs_r = []\<rparr>"
            "''ETH''" "1 / 500" 6 None exampleState]
       r example_verified(2) example_balance
  show ?thesis by (simp del: POST.simps)
qed

text \<open>
  Claim C1, as stated, fails: depositing the same transaction \<open>0xt1\<close> twice for
  \<open>0xAb\<close> is not answered with \<open>DuplicateTransaction\<close>, and the balance goes from 10
  to 20 to 30.
\<close>

theorem deposit_not_idempotent:
  "fst (POST exampleEnv (Deposit ''0xAb'' ''0xt1'' (Some 10) ''USDC'')
        (snd (POST exampleEnv (Deposit ''0xAb'' ''0xt1'' (Some 10) ''USDC'') exampleState)))
     \<noteq> Inl DuplicateTransaction
   \<and> balanceOf (document exampleState) ''0xAb'' = 10
   \<and> balanceOf (document (snd (POST exampleEnv (Deposit ''0xAb'' ''0xt1'' (Some 10) ''USDC'')
        exampleState))) ''0xAb'' = 20
   \<and> balanceOf (document (snd (POST exampleEnv (Deposit ''0xAb'' ''0xt1'' (Some 10) ''USDC'')
        (snd (POST exampleEnv (Deposit ''0xAb'' ''0xt1'' (Some 10) ''USDC'') exampleState)))))
       ''0xAb'' = 30"
proof -
  let ?D = "Deposit ''0xAb'' ''0xt1'' (Some 10) ''USDC''"
  have r: "''0xAb'' \<noteq> []" "''0xt1'' \<noteq> []"
    "getTransactionReceipt exampleEnv ''0xt1'' = Some exampleReceipt"
    "status_r exampleReceipt = success"
    by (simp_all add: exampleEnv_def exampleReceipt_def)
  note v = example_verified(1)
  from POST_deposit_verified [OF r v, where expected = "Some 10" and st = exampleState] obtain d1 where
    d1: "addBalance (dateNow exampleEnv) ''0xAb'' 10 deposit_tx None (document exampleState) = Inr d1"
    and p1: "POST exampleEnv ?D exampleState
       = (Inr (DepositResponse (getPlayerBalance (dateNow exampleEnv) d1 ''0xAb'') 10 ''USDC'' 10 ''0xt1''),
          \<lparr>document = d1, distributionLogs = distributionLogs exampleState,
           console = console exampleState @ amountWarning (Some 10) 10\<rparr>)"
    by blast
  let ?st1 = "snd (POST exampleEnv ?D exampleState)"
  from POST_deposit_verified [OF r v, where expected = "Some 10" and st = ?st1] obtain d2 where
    d2: "addBalance (dateNow exampleEnv) ''0xAb'' 10 deposit_tx None (document ?st1) = Inr d2"
    and p2: "POST exampleEnv ?D ?st1
       = (Inr (DepositResponse (getPlayerBalance (dateNow exampleEnv) d2 ''0xAb'') 10 ''USDC'' 10 ''0xt1''),
          \<lparr>document = d2, distributionLogs = distributionLogs ?st1,
           console = console ?st1 @ amountWarning (Some 10) 10\<rparr>)"
    by blast
  have s1: "document ?st1 = d1" by (simp only: p1 snd_conv) simp
  have b1: "balanceOf d1 ''0xAb'' = 20"
    using balanceOf_addBalance_no_ref [OF d1] example_balance by simp
  have b2: "balanceOf d2 ''0xAb'' = 30"
    using balanceOf_addBalance_no_ref [OF d2] b1 by (simp add: s1 del: POST.simps)
  have 1: "fst (POST exampleEnv ?D ?st1) \<noteq> Inl DuplicateTransaction"
    by (simp only: p2 fst_conv) simp
  have 2: "balanceOf (document ?st1) ''0xAb'' = 20" by (simp only: s1 b1)
  have 3: "balanceOf (document (snd (POST exampleEnv ?D ?st1))) ''0xAb'' = 30"
    by (simp only: p2 snd_conv) (simp add: b2)
  from 1 2 3 example_balance show ?thesis by (intro conjI)
qed

subsection \<open>Prize distribution\<close>

lemma map_snd_enumerate_fun:
  "map (\<lambda>(i, x). f i) (enumerate n xs) = map f [n ..< n + length xs]"
  by (induction xs arbitrary: n) (simp_all add: upt_rec)

lemma calculated_amounts:
  "map amount_d (calculatePrizeDistributionForLeaderboard now amount es)
   = map (prizeShare amount (length es)) [0 ..< length es]"
proof -
  have "map amount_d (calculatePrizeDistributionForLeaderboard now amount es)
        = map (\<lambda>(i, p). prizeShare amount (length es) i) (enumerate 0 (sortBy comparePaid es))"
    by (simp add: calculatePrizeDistributionForLeaderboard_def Let_def length_sortBy
        case_prod_unfold comp_def)
  also have "\<dots> = map (prizeShare amount (length es)) [0 ..< 0 + length (sortBy comparePaid es)]"
    by (rule map_snd_enumerate_fun)
  finally show ?thesis by (simp add: length_sortBy)
qed

lemma upt_4: "[0 ..< 4] = [0, 1, 2, 3::nat]"
  by (simp add: upt_rec)

lemma upt_5: "[0 ..< 5] = [0, 1, 2, 3, 4::nat]"
  by (simp add: upt_rec)

lemma payouts_4:
  "length es = 4 \<Longrightarrow>
     map amount_d (calculatePrizeDistributionForLeaderboard now 100 es) = [40, 25, 15, 10]"
  by (simp add: calculated_amounts upt_4 prizeShare_def)

lemma payouts_5:
  "length es = 5 \<Longrightarrow>
     map amount_d (calculatePrizeDistributionForLeaderboard now 100 es) = [40, 25, 15, 5, 5]"
  by (simp add: calculated_amounts upt_5 prizeShare_def)

lemma shares_from_3:
  "map (prizeShare amount n) [3 ..< n] = replicate (n - 3) (amount * (10 / 100) / of_nat (n - 3))"
proof -
  have "map (prizeShare amount n) [3 ..< n]
        = map (\<lambda>i. amount * (10 / 100) / of_nat (n - 3)) [3 ..< n]"
    by (rule map_cong) (auto simp: prizeShare_def)
  then show ?thesis by (simp add: map_replicate_const)
qed

lemma split_share: "of_nat k * (c / of_nat k) = (if k = 0 then 0 else (c::rat))"
  by simp

lemma sum_shares:
  "sum_list (map (prizeShare amount n) [0 ..< n])
   = (if n = 0 then 0 else if n = 1 then amount * (40 / 100)
      else if n = 2 then amount * (65 / 100)
      else if n = 3 then amount * (80 / 100) else amount * (90 / 100))"
proof -
  consider "n = 0" | "n = 1" | "n = 2" | "3 \<le> n" by linarith
  then show ?thesis
  proof cases
    case 4
    then have "[0 ..< n] = [0 ..< 3] @ [3 ..< n]"
      using upt_add_eq_append [of 0 3 "n - 3"] by simp
    moreover have "[0 ..< 3] = [0, 1, 2::nat]"
      by (simp add: upt_rec)
    ultimately have "[0 ..< n] = [0, 1, 2] @ [3 ..< n]"
      by (simp only:)
    then have "sum_list (map (prizeShare amount n) [0 ..< n])
        = amount * (40 / 100) + amount * (25 / 100) + amount * (15 / 100)
          + of_nat (n - 3) * (amount * (10 / 100) / of_nat (n - 3))"
      by (simp add: shares_from_3 sum_list_replicate prizeShare_def)
    moreover have "of_nat (n - 3) * (amount * (10 / 100) / of_nat (n - 3))
        = (if n = 3 then 0 else amount * (10 / 100))"
      using 4 by (simp only: split_share) auto
    ultimately have "sum_list (map (prizeShare amount n) [0 ..< n])
        = amount * (40 / 100) + amount * (25 / 100) + amount * (15 / 100)
          + (if n = 3 then 0 else amount * (10 / 100))"
      by (simp only:)
    with 4 show ?thesis by (cases "n = 3") simp_all
  qed (simp_all add: prizeShare_def upt_rec)
qed

lemma sum_payouts_bound:
  assumes "0 \<le> amount"
  shows "sum_list (map amount_d (calculatePrizeDistributionForLeaderboard now amount es))
         \<le> amount * (90 / 100)"
  using assms by (simp add: calculated_amounts sum_shares)

lemma POST_distribute_payouts:
  "payoutsOf (fst (POST env DistributePrizes st))
   = (if paidEntries (document st) = [] \<or> totalAmount (prizePool (document st)) = 0 then []
      else map amount_d (calculatePrizeDistributionForLeaderboard (dateNow env)
             (totalAmount (prizePool (document st))) (paidEntries (document st))))"
  by (simp add: distributePrizes_def distributionLogOf_def payoutsOf_def Let_def)

lemma length_paidEntries: "length (paidEntries data) = length (paid (leaderboard data))"
  by (simp add: paidEntries_def)

lemma insertBy_map:
  assumes "\<And>a b. cmp' (f a) (f b) = cmp a b"
  shows "insertBy cmp' (f x) (map f ys) = map f (insertBy cmp x ys)"
  by (induction ys) (simp_all add: assms)

lemma sortBy_map:
  assumes "\<And>a b. cmp' (f a) (f b) = cmp a b"
  shows "sortBy cmp' (map f xs) = map f (sortBy cmp xs)"
  by (induction xs) (simp_all add: insertBy_map [of cmp' f cmp, OF assms])

lemma count_list_insertBy:
  "count_list (insertBy cmp x ys) e = count_list (x # ys) e"
  by (induction ys) auto

lemma count_list_sortBy: "count_list (sortBy cmp xs) e = count_list xs e"
  by (induction xs) (auto simp: count_list_insertBy)

lemma filter_insertBy:
  assumes "\<And>y. key y = key x \<Longrightarrow> cmp x y \<le> 0"
  shows "filter (\<lambda>z. key z = k) (insertBy cmp x ys)
         = (if key x = k then [x] else []) @ filter (\<lambda>z. key z = k) ys"
  using assms by (induction ys) auto

lemma filter_sortBy:
  assumes "\<And>x y. key y = key x \<Longrightarrow> cmp x y \<le> 0"
  shows "filter (\<lambda>z. key z = k) (sortBy cmp xs) = filter (\<lambda>z. key z = k) xs"
proof (induction xs)
  case Nil
  then show ?case by simp
next
  case (Cons x xs)
  have "filter (\<lambda>z. key z = k) (insertBy cmp x (sortBy cmp xs))
        = (if key x = k then [x] else []) @ filter (\<lambda>z. key z = k) (sortBy cmp xs)"
    by (rule filter_insertBy) (rule assms)
  with Cons show ?case by simp
qed

lemma sorted_wrt_insertBy:
  assumes le: "\<And>a b. cmp a b \<le> 0 \<longleftrightarrow> R a b"
    and total: "\<And>a b. R a b \<or> R b a"
    and trans: "\<And>a b c. R a b \<Longrightarrow> R b c \<Longrightarrow> R a c"
  shows "sorted_wrt R ys \<Longrightarrow> sorted_wrt R (insertBy cmp x ys)"
proof (induction ys)
  case Nil
  then show ?case by simp
next
  case (Cons y ys)
  show ?case
  proof (cases "cmp x y \<le> 0")
    case True
    then have "R x y" by (simp add: le)
    with Cons.prems True show ?thesis by (auto intro: trans)
  next
    case False
    then have "R y x" using total [of x y] by (simp add: le)
    with Cons False show ?thesis by (auto simp: set_insertBy)
  qed
qed

lemma sorted_wrt_sortBy:
  assumes "\<And>a b. cmp a b \<le> 0 \<longleftrightarrow> R a b" "\<And>a b. R a b \<or> R b a"
    and "\<And>a b c. R a b \<Longrightarrow> R b c \<Longrightarrow> R a c"
  shows "sorted_wrt R (sortBy cmp xs)"
proof (induction xs)
  case Nil
  then show ?case by simp
next
  case (Cons x xs)
  from sorted_wrt_insertBy [of cmp R, OF assms Cons] show ?case by simp
qed

lemma sorted_sortByPaid: "sorted_wrt rankedBeforePaid (sortBy comparePaid xs)"
proof (rule sorted_wrt_sortBy)
  show "comparePaid a b \<le> 0 \<longleftrightarrow> rankedBeforePaid a b" for a b
    by (auto simp: comparePaid_def rankedBeforePaid_def)
  show "rankedBeforePaid a b \<or> rankedBeforePaid b a" for a b
    by (auto simp: rankedBeforePaid_def)
  show "rankedBeforePaid a c" if "rankedBeforePaid a b" "rankedBeforePaid b c" for a b c
    using that by (auto simp: rankedBeforePaid_def)
qed

lemma sortBy_sorted:
  "sorted_wrt rankedBefore xs \<Longrightarrow> sortBy compareEntries xs = xs"
proof (induction xs)
  case Nil
  then show ?case by simp
next
  case (Cons x xs)
  then have s: "sortBy compareEntries xs = xs" by simp
  show ?case
  proof (cases xs)
    case Nil
    then show ?thesis by simp
  next
    case (Cons y ys)
    with Cons.prems have "compareEntries x y \<le> 0" by (simp add: compareEntries_le)
    with s Cons show ?thesis by simp
  qed
qed

lemma tie_compareEntries: "sortKey y = sortKey x \<Longrightarrow> compareEntries x y \<le> 0"
  by (simp add: sortKey_def compareEntries_def)

lemma tie_comparePaid: "sortKeyPaid y = sortKeyPaid x \<Longrightarrow> comparePaid x y \<le> 0"
  by (simp add: sortKeyPaid_def comparePaid_def)

lemma enumerate_pairs:
  "map (\<lambda>(i, x). (f x, g i)) (enumerate n xs) = zip (map f xs) (map g [n ..< n + length xs])"
proof (induction xs arbitrary: n)
  case Nil
  then show ?case by simp
next
  case (Cons x xs)
  have "[n ..< n + length (x # xs)] = n # [Suc n ..< Suc n + length xs]"
    by (simp add: upt_rec)
  with Cons [of "Suc n"] show ?case by simp
qed

lemma calculated_payees:
  "map (\<lambda>d. (address_d d, amount_d d)) (calculatePrizeDistributionForLeaderboard now amount es)
   = zip (map address_p (sortBy comparePaid es))
         (map (prizeShare amount (length es)) [0 ..< length es])"
proof -
  have "map (\<lambda>d. (address_d d, amount_d d)) (calculatePrizeDistributionForLeaderboard now amount es)
        = map (\<lambda>(i, p). (address_p p, prizeShare amount (length es) i))
            (enumerate 0 (sortBy comparePaid es))"
    by (simp add: calculatePrizeDistributionForLeaderboard_def Let_def length_sortBy
        case_prod_unfold comp_def)
  also have "\<dots> = zip (map address_p (sortBy comparePaid es))
        (map (prizeShare amount (length es)) [0 ..< 0 + length (sortBy comparePaid es)])"
    by (rule enumerate_pairs)
  finally show ?thesis by (simp add: length_sortBy)
qed

lemma shares_4: "map (prizeShare 100 4) [0 ..< 4] = [40, 25, 15, 10]"
  by (simp add: upt_4 prizeShare_def)

lemma shares_5: "map (prizeShare 100 5) [0 ..< 5] = [40, 25, 15, 5, 5]"
  by (simp add: upt_5 prizeShare_def)

lemma ranked_paidEntries:
  "map address_p (sortBy comparePaid (paidEntries data)) = map address (rankedPaid data)"
proof -
  let ?f = "\<lambda>e. \<lparr>address_p = address e, maxStreak_p = maxStreak e,
                    totalPulls = triggerPulls e, totalDeaths = deaths e\<rparr>"
  have "sortBy comparePaid (map ?f (paid (leaderboard data)))
        = map ?f (sortBy compareEntries (paid (leaderboard data)))"
    by (rule sortBy_map) (simp add: comparePaid_def compareEntries_def)
  then show ?thesis by (simp add: paidEntries_def rankedPaid_def comp_def)
qed

lemma POST_distribute_payees:
  "payeesOf (fst (POST env DistributePrizes st))
   = (if paid (leaderboard (document st)) = [] \<or> totalAmount (prizePool (document st)) = 0 then []
      else zip (map address (rankedPaid (document st)))
             (map (prizeShare (totalAmount (prizePool (document st)))
                     (length (paid (leaderboard (document st)))))
                [0 ..< length (paid (leaderboard (document st)))]))"
proof -
  have e: "paidEntries (document st) = [] \<longleftrightarrow> paid (leaderboard (document st)) = []"
    by (simp add: paidEntries_def)
  have "payeesOf (fst (POST env DistributePrizes st))
        = (if paidEntries (document st) = [] \<or> totalAmount (prizePool (document st)) = 0 then []
           else map (\<lambda>d. (address_d d, amount_d d))
                  (calculatePrizeDistributionForLeaderboard (dateNow env)
                     (totalAmount (prizePool (document st))) (paidEntries (document st))))"
    by (simp add: distributePrizes_def distributionLogOf_def payeesOf_def Let_def)
  then show ?thesis
    by (simp only: calculated_payees ranked_paidEntries length_paidEntries e)
qed

text \<open>
  Claim C8.  Distributing a pool of 100 among 4 ranked participants pays
  \<open>[40, 25, 15, 10]\<close>, the best-ranked participant receiving 40 and the 4th-ranked
  the whole lower-ranks share of 10; among 5 it pays \<open>[40, 25, 15, 5, 5]\<close>, ranks 4
  and 5 receiving 5 each.  The recipients are the addresses of the leaderboard's
  paid partition taken in rank order (\<open>rankedPaid\<close>): that order is sorted best
  first (higher \<open>maxStreak\<close>, then more pulls, then fewer deaths), holds exactly
  the paid entries, keeps tied entries in their order of arrival, and is the paid
  partition itself when the ranker has left it sorted.  In general the
  participant at rank \<open>i + 1\<close> receives \<open>prizeShare\<close> of the pool at index \<open>i\<close>.
  The same holds for the calculator on any 4 or 5 entries, in its own rank
  order.  Whatever the participants, the payouts of a non-negative pool add up to
  at most 90\% of it: the operator's share is never paid out.
\<close>

theorem distribution_payouts:
  "sorted_wrt rankedBefore (rankedPaid data)
   \<and> (\<forall>e. count_list (rankedPaid data) e = count_list (paid (leaderboard data)) e)
   \<and> (\<forall>k. filter (\<lambda>e. sortKey e = k) (rankedPaid data)
           = filter (\<lambda>e. sortKey e = k) (paid (leaderboard data)))
   \<and> (sorted_wrt rankedBefore (paid (leaderboard data)) \<longrightarrow> rankedPaid data = paid (leaderboard data))
   \<and> (totalAmount (prizePool (document st)) = 100 \<and> length (paid (leaderboard (document st))) = 4
      \<longrightarrow> payeesOf (fst (POST env DistributePrizes st))
            = zip (map address (rankedPaid (document st))) [40, 25, 15, 10]
          \<and> payoutsOf (fst (POST env DistributePrizes st)) = [40, 25, 15, 10])
   \<and> (totalAmount (prizePool (document st)) = 100 \<and> length (paid (leaderboard (document st))) = 5
      \<longrightarrow> payeesOf (fst (POST env DistributePrizes st))
            = zip (map address (rankedPaid (document st))) [40, 25, 15, 5, 5]
          \<and> payoutsOf (fst (POST env DistributePrizes st)) = [40, 25, 15, 5, 5])
   \<and> (paid (leaderboard (document st)) \<noteq> [] \<and> totalAmount (prizePool (document st)) \<noteq> 0
      \<longrightarrow> payeesOf (fst (POST env DistributePrizes st))
            = zip (map address (rankedPaid (document st)))
                (map (prizeShare (totalAmount (prizePool (document st)))
                        (length (paid (leaderboard (document st)))))
                   [0 ..< length (paid (leaderboard (document st)))]))
   \<and> (0 \<le> totalAmount (prizePool (document st))
      \<longrightarrow> sum_list (payoutsOf (fst (POST env DistributePrizes st)))
          \<le> totalAmount (prizePool (document st)) * (90 / 100))
   \<and> sorted_wrt rankedBeforePaid (sortBy comparePaid entries)
   \<and> (\<forall>p. count_list (sortBy comparePaid entries) p = count_list entries p)
   \<and> (\<forall>k. filter (\<lambda>p. sortKeyPaid p = k) (sortBy comparePaid entries)
           = filter (\<lambda>p. sortKeyPaid p = k) entries)
   \<and> (length entries = 4
      \<longrightarrow> map (\<lambda>d. (address_d d, amount_d d)) (calculatePrizeDistributionForLeaderboard now 100 entries)
            = zip (map address_p (sortBy comparePaid entries)) [40, 25, 15, 10]
          \<and> map amount_d (calculatePrizeDistributionForLeaderboard now 100 entries) = [40, 25, 15, 10])
   \<and> (length entries = 5
      \<longrightarrow> map (\<lambda>d. (address_d d, amount_d d)) (calculatePrizeDistributionForLeaderboard now 100 entries)
            = zip (map address_p (sortBy comparePaid entries)) [40, 25, 15, 5, 5]
          \<and> map amount_d (calculatePrizeDistributionForLeaderboard now 100 entries) = [40, 25, 15, 5, 5])"
proof -
  have r1: "sorted_wrt rankedBefore (rankedPaid data)"
    by (simp add: rankedPaid_def sorted_sortBy)
  have r2: "\<forall>e. count_list (rankedPaid data) e = count_list (paid (leaderboard data)) e"
    by (simp add: rankedPaid_def count_list_sortBy)
  have r3: "\<forall>k. filter (\<lambda>e. sortKey e = k) (rankedPaid data)
           = filter (\<lambda>e. sortKey e = k) (paid (leaderboard data))"
    unfolding rankedPaid_def
    by (intro allI filter_sortBy tie_compareEntries)
  have r4: "rankedPaid data = paid (leaderboard data)"
    if "sorted_wrt rankedBefore (paid (leaderboard data))"
    using that by (simp add: rankedPaid_def sortBy_sorted)
  have 1: "payeesOf (fst (POST env DistributePrizes st))
            = zip (map address (rankedPaid (document st))) [40, 25, 15, 10]
          \<and> payoutsOf (fst (POST env DistributePrizes st)) = [40, 25, 15, 10]"
    if "totalAmount (prizePool (document st)) = 100" "length (paid (leaderboard (document st))) = 4"
  proof -
    from that(2) have l: "length (paidEntries (document st)) = 4" by (simp add: length_paidEntries)
    then have n: "paidEntries (document st) \<noteq> []" by auto
    from that(2) have n': "paid (leaderboard (document st)) \<noteq> []" by auto
    have a: "payoutsOf (fst (POST env DistributePrizes st)) = [40, 25, 15, 10]"
      using that(1) l n by (simp only: POST_distribute_payouts) (simp add: payouts_4)
    have b: "payeesOf (fst (POST env DistributePrizes st))
            = zip (map address (rankedPaid (document st))) [40, 25, 15, 10]"
      using that n' by (simp only: POST_distribute_payees shares_4) simp
    from a b show ?thesis by (intro conjI)
  qed
  have 2: "payeesOf (fst (POST env DistributePrizes st))
            = zip (map address (rankedPaid (document st))) [40, 25, 15, 5, 5]
          \<and> payoutsOf (fst (POST env DistributePrizes st)) = [40, 25, 15, 5, 5]"
    if "totalAmount (prizePool (document st)) = 100" "length (paid (leaderboard (document st))) = 5"
  proof -
    from that(2) have l: "length (paidEntries (document st)) = 5" by (simp add: length_paidEntries)
    then have n: "paidEntries (document st) \<noteq> []" by auto
    from that(2) have n': "paid (leaderboard (document st)) \<noteq> []" by auto
    have a: "payoutsOf (fst (POST env DistributePrizes st)) = [40, 25, 15, 5, 5]"
      using that(1) l n by (simp only: POST_distribute_payouts) (simp add: payouts_5)
    have b: "payeesOf (fst (POST env DistributePrizes st))
            = zip (map address (rankedPaid (document st))) [40, 25, 15, 5, 5]"
      using that n' by (simp only: POST_distribute_payees shares_5) simp
    from a b show ?thesis by (intro conjI)
  qed
  have g: "payeesOf (fst (POST env DistributePrizes st))
            = zip (map address (rankedPaid (document st)))
                (map (prizeShare (totalAmount (prizePool (document st)))
                        (length (paid (leaderboard (document st)))))
                   [0 ..< length (paid (leaderboard (document st)))])"
    if "paid (leaderboard (document st)) \<noteq> []" "totalAmount (prizePool (document st)) \<noteq> 0"
    using that by (simp only: POST_distribute_payees) simp
  have 3: "sum_list (payoutsOf (fst (POST env DistributePrizes st)))
          \<le> totalAmount (prizePool (document st)) * (90 / 100)"
    if "0 \<le> totalAmount (prizePool (document st))"
    using that sum_payouts_bound [OF that]
    by (simp only: POST_distribute_payouts) (simp split: if_splits)
  have c1: "sorted_wrt rankedBeforePaid (sortBy comparePaid entries)"
    by (rule sorted_sortByPaid)
  have c2: "\<forall>p. count_list (sortBy comparePaid entries) p = count_list entries p"
    by (simp add: count_list_sortBy)
  have c3: "\<forall>k. filter (\<lambda>p. sortKeyPaid p = k) (sortBy comparePaid entries)
           = filter (\<lambda>p. sortKeyPaid p = k) entries"
    by (intro allI filter_sortBy tie_comparePaid)
  have 4: "map (\<lambda>d. (address_d d, amount_d d)) (calculatePrizeDistributionForLeaderboard now 100 entries)
            = zip (map address_p (sortBy comparePaid entries)) [40, 25, 15, 10]
          \<and> map amount_d (calculatePrizeDistributionForLeaderboard now 100 entries) = [40, 25, 15, 10]"
    if "length entries = 4"
    using that payouts_4 [OF that, of now] by (simp only: calculated_payees shares_4)
  have 5: "map (\<lambda>d. (address_d d, amount_d d)) (calculatePrizeDistributionForLeaderboard now 100 entries)
            = zip (map address_p (sortBy comparePaid entries)) [40, 25, 15, 5, 5]
          \<and> map amount_d (calculatePrizeDistributionForLeaderboard now 100 entries) = [40, 25, 15, 5, 5]"
    if "length entries = 5"
    using that payouts_5 [OF that, of now] by (simp only: calculated_payees shares_5)
  from r1 r2 r3 r4 1 2 g 3 c1 c2 c3 4 5 show ?thesis by blast
qed

lemma examplePool_facts:
  "totalAmount (prizePool (document (examplePool n))) = 100"
  "length (paid (leaderboard (document (examplePool n)))) = n"
  by (simp_all add: examplePool_def exampleData_def examplePaid_def)

lemma examplePool_ranked:
  "map address (paid (leaderboard (document (examplePool 4)))) = [''0x'', ''0xa'', ''0xaa'', ''0xaaa'']"
  "map address (rankedPaid (document (examplePool 4))) = [''0xaaa'', ''0xaa'', ''0xa'', ''0x'']"
  "map address (paid (leaderboard (document (examplePool 5))))
   = [''0x'', ''0xa'', ''0xaa'', ''0xaaa'', ''0xaaaa'']"
  "map address (rankedPaid (document (examplePool 5)))
   = [''0xaaaa'', ''0xaaa'', ''0xaa'', ''0xa'', ''0x'']"
  by (simp_all add: rankedPaid_def examplePool_def examplePaid_def exampleEntry_def upt_4 upt_5
      compareEntries_def eval_nat_numeral)

lemma exampleData_ranked: "sorted_wrt rankedBefore (paid (leaderboard exampleData))"
  by (simp add: exampleData_def exampleBoard_def exampleEntry_def rankedBefore_def)

lemma examplePaid_entries:
  "length (paidEntries (document (examplePool n))) = n"
  "map address_p (sortBy comparePaid (paidEntries (document (examplePool 4))))
   = [''0xaaa'', ''0xaa'', ''0xa'', ''0x'']"
  by (simp_all add: paidEntries_def examplePool_def examplePaid_def exampleEntry_def upt_4
      comparePaid_def eval_nat_numeral)

theorem distribution_payouts_witness:
  "totalAmount (prizePool (document (examplePool 4))) = 100
   \<and> length (paid (leaderboard (document (examplePool 4)))) = 4
   \<and> map address (paid (leaderboard (document (examplePool 4)))) = [''0x'', ''0xa'', ''0xaa'', ''0xaaa'']
   \<and> map address (rankedPaid (document (examplePool 4))) = [''0xaaa'', ''0xaa'', ''0xa'', ''0x'']
   \<and> payeesOf (fst (POST exampleEnv DistributePrizes (examplePool 4)))
       = [(''0xaaa'', 40), (''0xaa'', 25), (''0xa'', 15), (''0x'', 10)]
   \<and> payoutsOf (fst (POST exampleEnv DistributePrizes (examplePool 4))) = [40, 25, 15, 10]
   \<and> totalAmount (prizePool (document (examplePool 5))) = 100
   \<and> length (paid (leaderboard (document (examplePool 5)))) = 5
   \<and> map address (rankedPaid (document (examplePool 5)))
       = [''0xaaaa'', ''0xaaa'', ''0xaa'', ''0xa'', ''0x'']
   \<and> payeesOf (fst (POST exampleEnv DistributePrizes (examplePool 5)))
       = [(''0xaaaa'', 40), (''0xaaa'', 25), (''0xaa'', 15), (''0xa'', 5), (''0x'', 5)]
   \<and> payoutsOf (fst (POST exampleEnv DistributePrizes (examplePool 5))) = [40, 25, 15, 5, 5]
   \<and> sum_list (payoutsOf (fst (POST exampleEnv DistributePrizes (examplePool 5)))) \<le> 90
   \<and> sorted_wrt rankedBefore (paid (leaderboard exampleData))
   \<and> rankedPaid exampleData = paid (leaderboard exampleData)
   \<and> length (paidEntries (document (examplePool 4))) = 4
   \<and> map (\<lambda>d. (address_d d, amount_d d))
         (calculatePrizeDistributionForLeaderboard 0 100 (paidEntries (document (examplePool 4))))
       = [(''0xaaa'', 40), (''0xaa'', 25), (''0xa'', 15), (''0x'', 10)]"
proof -
  from distribution_payouts [where st = "examplePool 4" and env = exampleEnv
      and data = exampleData and entries = "paidEntries (document (examplePool 4))" and now = 0]
  have 4: "payeesOf (fst (POST exampleEnv DistributePrizes (examplePool 4)))
           = [(''0xaaa'', 40), (''0xaa'', 25), (''0xa'', 15), (''0x'', 10)]"
    "payoutsOf (fst (POST exampleEnv DistributePrizes (examplePool 4))) = [40, 25, 15, 10]"
    "rankedPaid exampleData = paid (leaderboard exampleData)"
    "map (\<lambda>d. (address_d d, amount_d d))
         (calculatePrizeDistributionForLeaderboard 0 100 (paidEntries (document (examplePool 4))))
       = [(''0xaaa'', 40), (''0xaa'', 25), (''0xa'', 15), (''0x'', 10)]"
    by (simp_all add: examplePool_facts examplePool_ranked exampleData_ranked examplePaid_entries
        del: POST.simps)
  from distribution_payouts [where st = "examplePool 5" and env = exampleEnv
      and data = exampleData and entries = "[]" and now = 0]
  have 5: "payeesOf (fst (POST exampleEnv DistributePrizes (examplePool 5)))
           = [(''0xaaaa'', 40), (''0xaaa'', 25), (''0xaa'', 15), (''0xa'', 5), (''0x'', 5)]"
    "payoutsOf (fst (POST exampleEnv DistributePrizes (examplePool 5))) = [40, 25, 15, 5, 5]"
    "sum_list (payoutsOf (fst (POST exampleEnv DistributePrizes (examplePool 5)))) \<le> 90"
    by (simp_all add: examplePool_facts examplePool_ranked del: POST.simps)
  from 4 5 show ?thesis
    by (simp add: examplePool_facts examplePool_ranked exampleData_ranked examplePaid_entries
        del: POST.simps)
qed

subsection \<open>The reset after a distribution\<close>

lemma prizePool_resetPrizePool:
  "prizePool (resetPrizePool now data) = \<lparr>totalAmount = 0, participants = 0, lastUpdated = now\<rparr>"
  by (simp add: resetPrizePool_def updatePrizePool_def noUpdate_def)

lemma distributePrizes_success:
  "distributePrizes env st = (Inr response, st') \<Longrightarrow>
     document st' = resetPrizePool (dateNow env) (document st)"
  by (auto simp: distributePrizes_def Let_def split: sum.splits)

text \<open>
  Claim C2, as the code has it.  The reset after a distribution writes the absolute
  values 0 and 0 into the pool of the document it is applied to, whatever that pool
  holds and whatever amount was distributed; after a successful
  \<^verbatim>\<open>distributePrizes\<close> the pool is \<open>{0, 0}\<close>.
\<close>

theorem reset_is_absolute:
  "prizePool (resetPrizePool now data) = \<lparr>totalAmount = 0, participants = 0, lastUpdated = now\<rparr>
   \<and> (POST env DistributePrizes st = (Inr response, st') \<longrightarrow>
        document st' = resetPrizePool (dateNow env) (document st)
        \<and> prizePool (document st')
            = \<lparr>totalAmount = 0, participants = 0, lastUpdated = dateNow env\<rparr>)"
  using distributePrizes_success [of env st response st']
  by (simp add: prizePool_resetPrizePool)

theorem reset_is_absolute_witness:
  "fst (POST exampleEnv DistributePrizes exampleState)
     = Inr (DistributionResponse
         \<lparr>distributionId = 1000, timestamp = 1000, prizePoolAmount = 100, participants_log = 2,
           distributions =
             [\<lparr>address_d = ''0xCD'', amount_d = 40, status = pending, distributionId_d = 1000,
                timestamp_d = 1000, approvedAt_d = None\<rparr>,
              \<lparr>address_d = ''0xAb'', amount_d = 25, status = pending, distributionId_d = 1000,
                timestamp_d = 1000, approvedAt_d = None\<rparr>],
           approvedBy = None, approvedAt = None\<rparr>
         \<lparr>totalAmount = 0, participants = 0, lastUpdated = 1000\<rparr>)
   \<and> prizePool (document (snd (POST exampleEnv DistributePrizes exampleState)))
       = \<lparr>totalAmount = 0, participants = 0, lastUpdated = 1000\<rparr>"
proof -
  have f: "fst (POST exampleEnv DistributePrizes exampleState)
     = Inr (DistributionResponse
         \<lparr>distributionId = 1000, timestamp = 1000, prizePoolAmount = 100, participants_log = 2,
           distributions =
             [\<lparr>address_d = ''0xCD'', amount_d = 40, status = pending, distributionId_d = 1000,
                timestamp_d = 1000, approvedAt_d = None\<rparr>,
              \<lparr>address_d = ''0xAb'', amount_d = 25, status = pending, distributionId_d = 1000,
                timestamp_d = 1000, approvedAt_d = None\<rparr>],
           approvedBy = None, approvedAt = None\<rparr>
         \<lparr>totalAmount = 0, participants = 0, lastUpdated = 1000\<rparr>)"
    by (simp add: distributePrizes_def distributionLogOf_def paidEntries_def Let_def
        calculatePrizeDistributionForLeaderboard_def comparePaid_def prizeShare_def
        resetPrizePool_def updatePrizePool_def noUpdate_def
        exampleEnv_def exampleState_def exampleData_def exampleBoard_def exampleEntry_def)
  have n: "dateNow exampleEnv = 1000" by (simp add: exampleEnv_def)
  obtain response st' where p: "POST exampleEnv DistributePrizes exampleState = (Inr response, st')"
    using f by (metis prod.collapse)
  from reset_is_absolute [of 1000 "document exampleState" exampleEnv exampleState response st'] p n
  have "prizePool (document st') = \<lparr>totalAmount = 0, participants = 0, lastUpdated = 1000\<rparr>"
    by (simp del: POST.simps)
  with p have "prizePool (document (snd (POST exampleEnv DistributePrizes exampleState)))
       = \<lparr>totalAmount = 0, participants = 0, lastUpdated = 1000\<rparr>"
    by (simp del: POST.simps)
  with f show ?thesis by (intro conjI)
qed

text \<open>
  Claim C2, as stated, fails: a distribution is computed from a pool of 100, a
  player joins before the reset (pool 101), and the reset leaves 0, not the
  \<open>101 - 100\<close> a relative decrement of the distributed amount would leave.
\<close>

theorem reset_wipes_intervening_join:
  "distributedAmount (distributionLogOf 1000 exampleData) = 100
   \<and> totalAmount (prizePool (snd (joinPrizePool exampleEnv ''0xCd'' exampleData))) = 101
   \<and> totalAmount (prizePool
         (resetPrizePool 1000 (snd (joinPrizePool exampleEnv ''0xCd'' exampleData)))) = 0
   \<and> totalAmount (prizePool
         (resetPrizePool 1000 (snd (joinPrizePool exampleEnv ''0xCd'' exampleData))))
       \<noteq> totalAmount (prizePool (snd (joinPrizePool exampleEnv ''0xCd'' exampleData)))
           - distributedAmount (distributionLogOf 1000 exampleData)"
proof -
  have 1: "distributedAmount (distributionLogOf 1000 exampleData) = 100"
    by (simp add: distributedAmount_def distributionLogOf_def paidEntries_def Let_def
        exampleData_def exampleBoard_def)
  have 2: "totalAmount (prizePool (snd (joinPrizePool exampleEnv ''0xCd'' exampleData))) = 101"
    by (simp add: joinPrizePool_def Let_def updatePrizePool_def updatePlayerStats_def
        noUpdate_def exampleData_def)
  have 3: "totalAmount (prizePool
         (resetPrizePool 1000 (snd (joinPrizePool exampleEnv ''0xCd'' exampleData)))) = 0"
    by (simp add: prizePool_resetPrizePool)
  from 1 2 3 show ?thesis by simp
qed

section \<open>Properties of the store engine\<close>

subsection \<open>The guard in \<^verbatim>\<open>saveData\<close>\<close>

lemma saveData_blocked:
  assumes "remote st = Some currentData" "0 < entryCount currentData" "entryCount data = 0"
  shows "saveData data st = (Inr (), st\<lparr>printed := printed st @ [BlockedEmptyOverwrite]\<rparr>)"
  using assms by (simp add: saveData_def)

lemma saveData_returns_normally: "fst (saveData data st) = Inr ()"
  by (simp add: saveData_def split: option.splits)

text \<open>
  Claim C4, as the code has it.  A save, and so a load-change-save, whose document
  has no leaderboard entry while the stored one has some is not persisted: the
  store keeps its document and one error line is printed.  The caller is not told:
  \<^verbatim>\<open>saveData\<close> returns normally on every path.
\<close>

theorem guard_blocks_silently:
  "fst (saveData data st) = Inr ()
   \<and> fst (mutate operation cachedData st) = Inr ()
   \<and> (remote st = Some currentData \<and> 0 < entryCount currentData \<and> entryCount data = 0 \<longrightarrow>
        saveData data st = (Inr (), st\<lparr>printed := printed st @ [BlockedEmptyOverwrite]\<rparr>))
   \<and> (remote st = Some currentData \<and> 0 < entryCount currentData
        \<and> entryCount (operation currentData) = 0 \<longrightarrow>
        mutate operation cachedData st
          = (Inr (), st\<lparr>printed := printed st @ [BlockedEmptyOverwrite]\<rparr>))"
proof -
  have "mutate operation cachedData st
          = (Inr (), st\<lparr>printed := printed st @ [BlockedEmptyOverwrite]\<rparr>)"
    if "remote st = Some currentData" "0 < entryCount currentData"
      "entryCount (operation currentData) = 0"
    using that saveData_blocked [OF that(1,2), of "operation currentData"]
    by (simp add: mutate_def loadData_def)
  then show ?thesis
    using saveData_blocked [of st currentData data]
    by (simp add: saveData_returns_normally mutate_def)
qed

lemma example_counts: "entryCount exampleData = 2" "entryCount (initialData 0) = 0"
  by (simp_all add: entryCount_def exampleData_def exampleBoard_def initialData_def)

theorem guard_blocks_silently_witness:
  "remote exampleStore = Some exampleData
   \<and> 0 < entryCount exampleData
   \<and> entryCount (initialData 0) = 0
   \<and> saveData (initialData 0) exampleStore
       = (Inr (), exampleStore\<lparr>printed := [BlockedEmptyOverwrite]\<rparr>)
   \<and> mutate (\<lambda>data. initialData 0) (initialData 0) exampleStore
       = (Inr (), exampleStore\<lparr>printed := [BlockedEmptyOverwrite]\<rparr>)
   \<and> remote (snd (saveData (initialData 0) exampleStore)) = Some exampleData"
proof -
  have r: "remote exampleStore = Some exampleData" "printed exampleStore = []"
    by (simp_all add: exampleStore_def)
  from guard_blocks_silently
         [of "initialData 0" exampleStore "\<lambda>data. initialData 0" "initialData 0" exampleData]
       r example_counts
  show ?thesis by simp
qed

text \<open>
  Claim C4, as stated, fails: saving the empty document over a stored document with
  two leaderboard entries trips the guard, and what the caller gets back is the
  normal return, not \<open>GuardRejected\<close>.
\<close>

theorem guard_rejection_not_reported:
  "entryCount exampleData = 2
   \<and> entryCount (initialData 0) = 0
   \<and> fst (saveData (initialData 0) exampleStore) = Inr ()
   \<and> fst (saveData (initialData 0) exampleStore) \<noteq> Inl GuardRejected
   \<and> fst (mutate (\<lambda>data. initialData 0) (initialData 0) exampleStore) \<noteq> Inl GuardRejected"
  by (simp add: example_counts saveData_returns_normally mutate_def)

subsection \<open>Two calls of \<^verbatim>\<open>updatePrizePool\<close>\<close>

lemma entryCount_updatePrizePool [simp]:
  "entryCount (updatePrizePool now u data) = entryCount data"
  by (simp add: entryCount_def updatePrizePool_def)

lemma save_after_load:
  "remote st = Some data' \<Longrightarrow> accepting st \<Longrightarrow> entryCount data' = entryCount data \<Longrightarrow>
     snd (saveData (updatePrizePool now u data) st)
       = st\<lparr>remote := Some (updatePrizePool now u data)\<rparr>"
  by (auto simp: saveData_def writeData_def)

lemma prizePool_increment:
  "prizePool (updatePrizePool now incrementPool data)
   = \<lparr>totalAmount = totalAmount (prizePool data) + 1,
      participants = participants (prizePool data) + 1, lastUpdated = now\<rparr>"
  by (simp add: updatePrizePool_def incrementPool_def noUpdate_def)

lemma run_serial_A:
  "poolOf (run now incrementPool [A, A, B, B] (startWorld data))
   = Some (totalAmount (prizePool data) + 2, participants (prizePool data) + 2)"
  by (simp add: poolOf_def startWorld_def stepCall_def loadData_def save_after_load
      prizePool_increment)

lemma run_serial_B:
  "poolOf (run now incrementPool [B, B, A, A] (startWorld data))
   = Some (totalAmount (prizePool data) + 2, participants (prizePool data) + 2)"
  by (simp add: poolOf_def startWorld_def stepCall_def loadData_def save_after_load
      prizePool_increment)

lemma run_overlapping:
  "poolOf (run now incrementPool [A, B, A, B] (startWorld data))
   = Some (totalAmount (prizePool data) + 1, participants (prizePool data) + 1)"
  "poolOf (run now incrementPool [A, B, B, A] (startWorld data))
   = Some (totalAmount (prizePool data) + 1, participants (prizePool data) + 1)"
  "poolOf (run now incrementPool [B, A, A, B] (startWorld data))
   = Some (totalAmount (prizePool data) + 1, participants (prizePool data) + 1)"
  "poolOf (run now incrementPool [B, A, B, A] (startWorld data))
   = Some (totalAmount (prizePool data) + 1, participants (prizePool data) + 1)"
  by (simp_all add: poolOf_def startWorld_def stepCall_def loadData_def save_after_load
      prizePool_increment)

lemma prizePool_updatePlayerStats [simp]:
  "prizePool (updatePlayerStats now addr stats data) = prizePool data"
  by (simp add: updatePlayerStats_def)

lemma joinPrizePool_pool:
  "a \<noteq> [] \<Longrightarrow> prizePool (snd (joinPrizePool env a data))
     = \<lparr>totalAmount = totalAmount (prizePool data) + 1,
        participants = participants (prizePool data) + 1, lastUpdated = dateNow env\<rparr>"
  by (simp add: joinPrizePool_def Let_def updatePrizePool_def noUpdate_def)

lemma joinPrizePool_cached_pool:
  "a \<noteq> [] \<Longrightarrow> prizePool (snd (joinPrizePool_cached env cached a data))
     = \<lparr>totalAmount = totalAmount (prizePool cached) + 1,
        participants = participants (prizePool cached) + 1, lastUpdated = dateNow env\<rparr>"
  by (simp add: joinPrizePool_cached_def Let_def updatePrizePool_def noUpdate_def)

text \<open>
  Claim C9, as the code has it.  Two calls of \<^verbatim>\<open>updatePrizePool\<close> with the
  increments \<open>(+1, +1)\<close> against the same stored document raise the pool by
  \<open>(2, 2)\<close> when one call saves before the other loads, in either order, and by
  \<open>(1, 1)\<close> in each of the four schedules in which both load before either saves.
  Run one after the other, two joins of the route raise the pool by \<open>(2, 2)\<close>; two
  joins of the earlier route, which write absolutes computed from the same cached
  document, leave it at the cached values plus \<open>(1, 1)\<close>.
\<close>

theorem increments_kept_when_serial:
  "poolOf (run now incrementPool [A, A, B, B] (startWorld data))
     = Some (totalAmount (prizePool data) + 2, participants (prizePool data) + 2)
   \<and> poolOf (run now incrementPool [B, B, A, A] (startWorld data))
     = Some (totalAmount (prizePool data) + 2, participants (prizePool data) + 2)
   \<and> poolOf (run now incrementPool [A, B, A, B] (startWorld data))
     = Some (totalAmount (prizePool data) + 1, participants (prizePool data) + 1)
   \<and> poolOf (run now incrementPool [A, B, B, A] (startWorld data))
     = Some (totalAmount (prizePool data) + 1, participants (prizePool data) + 1)
   \<and> poolOf (run now incrementPool [B, A, A, B] (startWorld data))
     = Some (totalAmount (prizePool data) + 1, participants (prizePool data) + 1)
   \<and> poolOf (run now incrementPool [B, A, B, A] (startWorld data))
     = Some (totalAmount (prizePool data) + 1, participants (prizePool data) + 1)
   \<and> (a \<noteq> [] \<and> b \<noteq> [] \<longrightarrow>
        prizePool (snd (joinPrizePool env b (snd (joinPrizePool env a data))))
          = \<lparr>totalAmount = totalAmount (prizePool data) + 2,
             participants = participants (prizePool data) + 2, lastUpdated = dateNow env\<rparr>
        \<and> prizePool (snd (joinPrizePool_cached env cached b
                            (snd (joinPrizePool_cached env cached a data))))
          = \<lparr>totalAmount = totalAmount (prizePool cached) + 1,
             participants = participants (prizePool cached) + 1, lastUpdated = dateNow env\<rparr>)"
  by (simp add: run_serial_A run_serial_B run_overlapping joinPrizePool_pool
      joinPrizePool_cached_pool del: run.simps)

theorem increments_kept_when_serial_witness:
  "poolOf (startWorld (initialData 0)) = Some (0, 0)
   \<and> poolOf (run 0 incrementPool [A, A, B, B] (startWorld (initialData 0))) = Some (2, 2)
   \<and> poolOf (run 0 incrementPool [B, B, A, A] (startWorld (initialData 0))) = Some (2, 2)
   \<and> ''0xAb'' \<noteq> [] \<and> ''0xCd'' \<noteq> []
   \<and> prizePool (snd (joinPrizePool exampleEnv ''0xCd''
        (snd (joinPrizePool exampleEnv ''0xAb'' (initialData 0)))))
       = \<lparr>totalAmount = 2, participants = 2, lastUpdated = 1000\<rparr>
   \<and> prizePool (snd (joinPrizePool_cached exampleEnv (initialData 0) ''0xCd''
        (snd (joinPrizePool_cached exampleEnv (initialData 0) ''0xAb'' (initialData 0)))))
       = \<lparr>totalAmount = 1, participants = 1, lastUpdated = 1000\<rparr>"
proof -
  have i: "prizePool (initialData 0) = \<lparr>totalAmount = 0, participants = 0, lastUpdated = 0\<rparr>"
    "dateNow exampleEnv = 1000"
    "poolOf (startWorld (initialData 0)) = Some (0, 0)"
    by (simp_all add: initialData_def exampleEnv_def poolOf_def startWorld_def)
  from increments_kept_when_serial
         [of 0 "initialData 0" "''0xAb''" "''0xCd''" exampleEnv "initialData 0"] i
  show ?thesis by (simp del: run.simps)
qed

text \<open>
  Claim C9, as stated, fails: from the pool \<open>{0, 0}\<close>, when both callers load
  before either saves, the final pool is \<open>{1, 1}\<close>, not \<open>{2, 2}\<close>.
\<close>

theorem overlapping_increments_lose_one:
  "poolOf (startWorld (initialData 0)) = Some (0, 0)
   \<and> poolOf (run 0 incrementPool [A, B, A, B] (startWorld (initialData 0))) = Some (1, 1)
   \<and> poolOf (run 0 incrementPool [A, B, A, B] (startWorld (initialData 0))) \<noteq> Some (2, 2)"
proof -
  have "prizePool (initialData 0) = \<lparr>totalAmount = 0, participants = 0, lastUpdated = 0\<rparr>"
    "poolOf (startWorld (initialData 0)) = Some (0, 0)"
    by (simp_all add: initialData_def poolOf_def startWorld_def)
  then show ?thesis by (simp add: run_overlapping(1) del: run.simps)
qed

end
